theory Spec2Isabelle
  imports Complex_Main
begin

section \<open>JavaScript numbers\<close>

text \<open>
  \<^verbatim>\<open>PhasedArray.js\<close> computes with JavaScript numbers.  A number is modelled as a
  real (\<open>Fin\<close>) or one of the three special values \<open>Infinity\<close>, \<open>-Infinity\<close> and
  \<open>NaN\<close>.  Arithmetic on finite values is exact (no rounding, no overflow), and the two
  zeros are not distinguished, so a non-zero value divided by zero is the infinity with
  the sign of the dividend.  The special values follow the language: \<open>NaN\<close> is
  absorbing, \<open>Infinity - Infinity\<close>, \<open>0 * Infinity\<close> and \<open>0 / 0\<close> are \<open>NaN\<close>.
\<close>

datatype jsnum = Fin real | PInf | NInf | NaN

definition signed_inf :: "real \<Rightarrow> jsnum" where
  "signed_inf a = (if a = 0 then NaN else if 0 < a then PInf else NInf)"

instantiation jsnum :: uminus
begin
fun uminus_jsnum :: "jsnum \<Rightarrow> jsnum" where
  "uminus_jsnum (Fin a) = Fin (- a)"
| "uminus_jsnum PInf = NInf"
| "uminus_jsnum NInf = PInf"
| "uminus_jsnum NaN = NaN"
instance ..
end

instantiation jsnum :: plus
begin
fun plus_jsnum :: "jsnum \<Rightarrow> jsnum \<Rightarrow> jsnum" where
  "plus_jsnum (Fin a) (Fin b) = Fin (a + b)"
| "plus_jsnum NaN _ = NaN"
| "plus_jsnum _ NaN = NaN"
| "plus_jsnum PInf NInf = NaN"
| "plus_jsnum NInf PInf = NaN"
| "plus_jsnum PInf _ = PInf"
| "plus_jsnum _ PInf = PInf"
| "plus_jsnum NInf _ = NInf"
| "plus_jsnum _ NInf = NInf"
instance ..
end

instantiation jsnum :: minus
begin
definition minus_jsnum :: "jsnum \<Rightarrow> jsnum \<Rightarrow> jsnum" where
  "minus_jsnum a b = a + (- b)"
instance ..
end

instantiation jsnum :: times
begin
fun times_jsnum :: "jsnum \<Rightarrow> jsnum \<Rightarrow> jsnum" where
  "times_jsnum (Fin a) (Fin b) = Fin (a * b)"
| "times_jsnum NaN _ = NaN"
| "times_jsnum _ NaN = NaN"
| "times_jsnum PInf (Fin b) = signed_inf b"
| "times_jsnum NInf (Fin b) = signed_inf (- b)"
| "times_jsnum (Fin a) PInf = signed_inf a"
| "times_jsnum (Fin a) NInf = signed_inf (- a)"
| "times_jsnum PInf PInf = PInf"
| "times_jsnum PInf NInf = NInf"
| "times_jsnum NInf PInf = NInf"
| "times_jsnum NInf NInf = PInf"
instance ..
end

instantiation jsnum :: inverse
begin
fun divide_jsnum :: "jsnum \<Rightarrow> jsnum \<Rightarrow> jsnum" where
  "divide_jsnum (Fin a) (Fin b) = (if b = 0 then signed_inf a else Fin (a / b))"
| "divide_jsnum NaN _ = NaN"
| "divide_jsnum _ NaN = NaN"
| "divide_jsnum (Fin a) PInf = Fin 0"
| "divide_jsnum (Fin a) NInf = Fin 0"
| "divide_jsnum PInf (Fin b) = (if 0 \<le> b then PInf else NInf)"
| "divide_jsnum NInf (Fin b) = (if 0 \<le> b then NInf else PInf)"
| "divide_jsnum PInf PInf = NaN"
| "divide_jsnum PInf NInf = NaN"
| "divide_jsnum NInf PInf = NaN"
| "divide_jsnum NInf NInf = NaN"
fun inverse_jsnum :: "jsnum \<Rightarrow> jsnum" where
  "inverse_jsnum (Fin a) = (if a = 0 then PInf else Fin (1 / a))"
| "inverse_jsnum PInf = Fin 0"
| "inverse_jsnum NInf = Fin 0"
| "inverse_jsnum NaN = NaN"
instance ..
end

text \<open>The comparisons \<open><\<close> and \<open><=\<close>: every comparison with \<open>NaN\<close> is false.\<close>

instantiation jsnum :: ord
begin
fun less_jsnum :: "jsnum \<Rightarrow> jsnum \<Rightarrow> bool" where
  "less_jsnum (Fin a) (Fin b) = (a < b)"
| "less_jsnum NaN _ = False"
| "less_jsnum _ NaN = False"
| "less_jsnum _ NInf = False"
| "less_jsnum PInf _ = False"
| "less_jsnum NInf _ = True"
| "less_jsnum _ PInf = True"
fun less_eq_jsnum :: "jsnum \<Rightarrow> jsnum \<Rightarrow> bool" where
  "less_eq_jsnum (Fin a) (Fin b) = (a \<le> b)"
| "less_eq_jsnum NaN _ = False"
| "less_eq_jsnum _ NaN = False"
| "less_eq_jsnum NInf _ = True"
| "less_eq_jsnum _ PInf = True"
| "less_eq_jsnum _ NInf = False"
| "less_eq_jsnum PInf _ = False"
instance ..
end

text \<open>\<^verbatim>\<open>Math.max(a, b)\<close> and \<^verbatim>\<open>Math.min(a, b)\<close>: \<open>NaN\<close> if either argument is.\<close>

definition Math_max :: "jsnum \<Rightarrow> jsnum \<Rightarrow> jsnum" where
  "Math_max a b = (if a = NaN \<or> b = NaN then NaN else if a < b then b else a)"

definition Math_min :: "jsnum \<Rightarrow> jsnum \<Rightarrow> jsnum" where
  "Math_min a b = (if a = NaN \<or> b = NaN then NaN else if b < a then b else a)"

text \<open>\<^verbatim>\<open>Math.round\<close> rounds to the nearest integer, halves towards \<open>+Infinity\<close>.\<close>

fun Math_round :: "jsnum \<Rightarrow> jsnum" where
  "Math_round (Fin a) = Fin (of_int \<lfloor>a + 1 / 2\<rfloor>)"
| "Math_round v = v"

fun Math_sin :: "jsnum \<Rightarrow> jsnum" where
  "Math_sin (Fin a) = Fin (sin a)"
| "Math_sin _ = NaN"

fun Math_cos :: "jsnum \<Rightarrow> jsnum" where
  "Math_cos (Fin a) = Fin (cos a)"
| "Math_cos _ = NaN"

fun Math_sqrt :: "jsnum \<Rightarrow> jsnum" where
  "Math_sqrt (Fin a) = (if a < 0 then NaN else Fin (sqrt a))"
| "Math_sqrt PInf = PInf"
| "Math_sqrt NInf = NaN"
| "Math_sqrt NaN = NaN"

text \<open>\<^verbatim>\<open>Math.pow(v, 2)\<close> and \<^verbatim>\<open>v ** 2\<close>: the only exponent the source uses is 2.\<close>

fun pow2 :: "jsnum \<Rightarrow> jsnum" where
  "pow2 (Fin a) = Fin (a\<^sup>2)"
| "pow2 PInf = PInf"
| "pow2 NInf = PInf"
| "pow2 NaN = NaN"

fun isFinite :: "jsnum \<Rightarrow> bool" where
  "isFinite (Fin a) = True"
| "isFinite _ = False"

text \<open>
  The remainder operator \<^verbatim>\<open>a % b\<close> truncates the quotient towards zero, so the
  result has the sign of the dividend.
\<close>

definition trunc :: "real \<Rightarrow> int" where
  "trunc x = (if 0 \<le> x then \<lfloor>x\<rfloor> else \<lceil>x\<rceil>)"

fun js_rem :: "jsnum \<Rightarrow> jsnum \<Rightarrow> jsnum" where
  "js_rem (Fin a) (Fin b) = (if b = 0 then NaN else Fin (a - b * of_int (trunc (a / b))))"
| "js_rem (Fin a) PInf = Fin a"
| "js_rem (Fin a) NInf = Fin a"
| "js_rem _ _ = NaN"

text \<open>
  Truthiness of a number (\<open>0\<close> and \<open>NaN\<close> are falsy) and the idiom \<^verbatim>\<open>v || d\<close> on a
  number \<open>v\<close>.  A field that a configuration object does not have reads as
  \<open>undefined\<close>, which is falsy: an optional value is \<open>None\<close> there.
\<close>

fun truthy :: "jsnum \<Rightarrow> bool" where
  "truthy (Fin a) = (a \<noteq> 0)"
| "truthy NaN = False"
| "truthy _ = True"

definition num_or :: "jsnum \<Rightarrow> jsnum \<Rightarrow> jsnum" where
  "num_or v d = (if truthy v then v else d)"

fun opt_num_or :: "jsnum option \<Rightarrow> jsnum \<Rightarrow> jsnum" where
  "opt_num_or None d = d"
| "opt_num_or (Some v) d = num_or v d"

fun opt_str_or :: "string option \<Rightarrow> string \<Rightarrow> string" where
  "opt_str_or None d = d"
| "opt_str_or (Some v) d = (if v = [] then d else v)"

text \<open>An \<open>undefined\<close> operand of an arithmetic operator converts to \<open>NaN\<close>.\<close>

fun to_number :: "jsnum option \<Rightarrow> jsnum" where
  "to_number None = NaN"
| "to_number (Some v) = v"


section \<open>Loops, arrays and errors\<close>

text \<open>
  A call can fail to return in two ways: a \<open>TypeError\<close> (reading a property of
  \<open>undefined\<close>), or a loop that never exits.
\<close>

datatype error = TypeError | NonTermination

text \<open>
  \<^verbatim>\<open>for (let i = 0; i < n; i++) { body }\<close>, started at \<open>i\<close> with the loop's variables
  in \<open>acc\<close>.  With \<open>n = Infinity\<close> the condition never fails.
\<close>

partial_function (option) for_loop ::
  "jsnum \<Rightarrow> (nat \<Rightarrow> 'a \<Rightarrow> error + 'a) \<Rightarrow> nat \<Rightarrow> 'a \<Rightarrow> (error + 'a) option" where
  "for_loop n body i acc =
     (if Fin (real i) < n
      then (case body i acc of
              Inl e \<Rightarrow> Some (Inl e)
            | Inr acc' \<Rightarrow> for_loop n body (Suc i) acc')
      else Some (Inr acc))"

definition for_upto :: "jsnum \<Rightarrow> (nat \<Rightarrow> 'a \<Rightarrow> error + 'a) \<Rightarrow> 'a \<Rightarrow> error + 'a" where
  "for_upto n body acc =
     (case for_loop n body 0 acc of None \<Rightarrow> Inl NonTermination | Some r \<Rightarrow> r)"

text \<open>\<^verbatim>\<open>xs[i]\<close>: reading past the end of an array gives \<open>undefined\<close>.\<close>

definition nth_js :: "'a list \<Rightarrow> nat \<Rightarrow> 'a option" where
  "nth_js xs i = (if i < length xs then Some (xs ! i) else None)"

text \<open>The decimal digits of a number, as a template literal prints an id.\<close>

fun show_nat :: "nat \<Rightarrow> string" where
  "show_nat n =
     (if n < 10 then [''0123456789'' ! n]
      else show_nat (n div 10) @ [''0123456789'' ! (n mod 10)])"

declare show_nat.simps [simp del]

section \<open>The data model of \<^verbatim>\<open>PhasedArray\<close>\<close>

text \<open>A position object \<^verbatim>\<open>{x, y}\<close>, both fields numbers.\<close>

record point =
  pos_x :: jsnum
  pos_y :: jsnum

text \<open>
  An entry of \<^verbatim>\<open>_elementPositions\<close>: \<^verbatim>\<open>{x, y, localIndex}\<close>, and \<^verbatim>\<open>normalAngle\<close> on a
  curved array.
\<close>

record element =
  elem_x :: jsnum
  elem_y :: jsnum
  localIndex :: nat
  normalAngle :: "jsnum option"

text \<open>An entry of the result of \<^verbatim>\<open>getElementData\<close>: \<^verbatim>\<open>{x, y, phase, amplitude}\<close>.\<close>

record element_data =
  data_x :: jsnum
  data_y :: jsnum
  data_phase :: "jsnum option"
  data_amplitude :: jsnum

text \<open>
  The configuration object of the constructor, which is also what \<^verbatim>\<open>toJSON\<close>
  returns.  Every field may be absent; a field that is present has the type the
  constructor documents.
\<close>

record config =
  cfg_name :: "string option"
  cfg_numElements :: "jsnum option"
  cfg_pitch :: "jsnum option"
  cfg_frequency :: "jsnum option"
  cfg_steeringAngle :: "jsnum option"
  cfg_position :: "point option"
  cfg_geometry :: "string option"
  cfg_curvatureRadius :: "jsnum option"
  cfg_orientation :: "jsnum option"
  cfg_focalDistance :: "jsnum option"
  cfg_amplitude :: "jsnum option"
  cfg_speedOfSound :: "jsnum option"
  cfg_enabled :: "bool option"

text \<open>The empty configuration \<^verbatim>\<open>{}\<close>, the constructor's default argument.\<close>

definition empty_config :: config where
  "empty_config =
     \<lparr>cfg_name = None, cfg_numElements = None, cfg_pitch = None, cfg_frequency = None,
      cfg_steeringAngle = None, cfg_position = None, cfg_geometry = None,
      cfg_curvatureRadius = None, cfg_orientation = None, cfg_focalDistance = None,
      cfg_amplitude = None, cfg_speedOfSound = None, cfg_enabled = None\<rparr>"

text \<open>The fields of a \<^verbatim>\<open>PhasedArray\<close> object (the source prefixes the private ones with an underscore).\<close>

record phased_array =
  array_id :: nat
  name :: string
  numElements :: jsnum
  pitch :: jsnum
  frequency :: jsnum
  steeringAngle :: jsnum
  position :: point
  geometry :: string
  curvatureRadius :: jsnum
  orientation :: jsnum
  focalDistance :: jsnum
  amplitude :: jsnum
  enabled :: bool
  speedOfSound :: jsnum
  elementPositions :: "element list"
  elementPhases :: "jsnum list"
  wavelength :: jsnum
  dirty :: bool

section \<open>Setters\<close>

definition set_numElements :: "jsnum \<Rightarrow> phased_array \<Rightarrow> phased_array" where
  "set_numElements v s =
     s\<lparr>numElements := Math_max (Fin 1) (Math_min (Fin 64) (Math_round v)), dirty := True\<rparr>"

definition set_pitch :: "jsnum \<Rightarrow> phased_array \<Rightarrow> phased_array" where
  "set_pitch v s = s\<lparr>pitch := Math_max (Fin 0.001) v, dirty := True\<rparr>"

definition set_frequency :: "jsnum \<Rightarrow> phased_array \<Rightarrow> phased_array" where
  "set_frequency v s = s\<lparr>frequency := Math_max (Fin 0.1) v, dirty := True\<rparr>"

definition set_steeringAngle :: "jsnum \<Rightarrow> phased_array \<Rightarrow> phased_array" where
  "set_steeringAngle v s =
     s\<lparr>steeringAngle := Math_max (Fin (- 90)) (Math_min (Fin 90) v), dirty := True\<rparr>"

definition set_position :: "point \<Rightarrow> phased_array \<Rightarrow> phased_array" where
  "set_position v s =
     s\<lparr>position := \<lparr>pos_x = num_or (pos_x v) (Fin 0), pos_y = num_or (pos_y v) (Fin 0)\<rparr>,
       dirty := True\<rparr>"

definition set_geometry :: "string \<Rightarrow> phased_array \<Rightarrow> phased_array" where
  "set_geometry v s =
     s\<lparr>geometry := (if v = ''curved'' then ''curved'' else ''linear''), dirty := True\<rparr>"

definition set_curvatureRadius :: "jsnum \<Rightarrow> phased_array \<Rightarrow> phased_array" where
  "set_curvatureRadius v s = s\<lparr>curvatureRadius := Math_max (Fin 0.01) v, dirty := True\<rparr>"

definition set_orientation :: "jsnum \<Rightarrow> phased_array \<Rightarrow> phased_array" where
  "set_orientation v s = s\<lparr>orientation := js_rem v (Fin 360), dirty := True\<rparr>"

definition set_focalDistance :: "jsnum \<Rightarrow> phased_array \<Rightarrow> phased_array" where
  "set_focalDistance v s =
     s\<lparr>focalDistance := (if v \<le> Fin 0 then PInf else v), dirty := True\<rparr>"

definition set_amplitude :: "jsnum \<Rightarrow> phased_array \<Rightarrow> phased_array" where
  "set_amplitude v s = s\<lparr>amplitude := Math_max (Fin 0) (Math_min (Fin 2) v)\<rparr>"

text \<open>\<^verbatim>\<open>Boolean(value)\<close> is the identity on a boolean argument.\<close>

definition set_enabled :: "bool \<Rightarrow> phased_array \<Rightarrow> phased_array" where
  "set_enabled v s = s\<lparr>enabled := v\<rparr>"

definition set_speedOfSound :: "jsnum \<Rightarrow> phased_array \<Rightarrow> phased_array" where
  "set_speedOfSound v s = s\<lparr>speedOfSound := Math_max (Fin 0.1) v, dirty := True\<rparr>"


section \<open>Geometry\<close>

text \<open>The body of the loop of the linear branch of \<^verbatim>\<open>_calculateElementPositions\<close>.\<close>

definition linear_element :: "phased_array \<Rightarrow> jsnum \<Rightarrow> jsnum \<Rightarrow> nat \<Rightarrow> element" where
  "linear_element s orientationRad startOffset i =
     (let localX = startOffset + Fin (real i) * pitch s;
          localY = Fin 0;
          cos_o = Math_cos orientationRad;
          sin_o = Math_sin orientationRad;
          worldX = pos_x (position s) + localX * cos_o - localY * sin_o;
          worldY = pos_y (position s) + localX * sin_o + localY * cos_o
      in \<lparr>elem_x = worldX, elem_y = worldY, localIndex = i, normalAngle = None\<rparr>)"

text \<open>
  The body of the loop of the curved branch: first the element's angle on the arc and
  its local coordinates, then the rotation and translation.
\<close>

definition curved_local ::
  "phased_array \<Rightarrow> jsnum \<Rightarrow> jsnum \<Rightarrow> jsnum \<Rightarrow> nat \<Rightarrow> jsnum \<times> jsnum \<times> jsnum" where
  "curved_local s radius startAngle totalAngle i =
     (let n = numElements s;
          elementAngle = startAngle + (Fin (real i) / num_or (n - Fin 1) (Fin 1)) * totalAngle;
          localX = radius * Math_sin elementAngle;
          localY = radius * (Fin 1 - Math_cos elementAngle)
      in (elementAngle, localX, localY))"

definition curved_element ::
  "phased_array \<Rightarrow> jsnum \<Rightarrow> jsnum \<Rightarrow> jsnum \<Rightarrow> jsnum \<Rightarrow> nat \<Rightarrow> element" where
  "curved_element s orientationRad radius startAngle totalAngle i =
     (case curved_local s radius startAngle totalAngle i of
        (elementAngle, localX, localY) \<Rightarrow>
          (let cos_o = Math_cos orientationRad;
               sin_o = Math_sin orientationRad;
               worldX = pos_x (position s) + localX * cos_o - localY * sin_o;
               worldY = pos_y (position s) + localX * sin_o + localY * cos_o
           in \<lparr>elem_x = worldX, elem_y = worldY, localIndex = i,
               normalAngle = Some (orientationRad + elementAngle + Fin pi / Fin 2)\<rparr>))"

definition calculateElementPositions :: "phased_array \<Rightarrow> error + phased_array" where
  "calculateElementPositions s =
     (let n = numElements s;
          orientationRad = orientation s * Fin pi / Fin 180
      in if geometry s = ''linear''
         then (let totalWidth = (n - Fin 1) * pitch s;
                   startOffset = (- totalWidth) / Fin 2
               in case for_upto n
                         (\<lambda>i acc. Inr (acc @ [linear_element s orientationRad startOffset i])) []
                  of Inl e \<Rightarrow> Inl e
                   | Inr ps \<Rightarrow> Inr (s\<lparr>elementPositions := ps\<rparr>))
         else (let radius = curvatureRadius s;
                   arcLength = (n - Fin 1) * pitch s;
                   totalAngle = arcLength / radius;
                   startAngle = (- totalAngle) / Fin 2
               in case for_upto n
                         (\<lambda>i acc. Inr (acc @ [curved_element s orientationRad radius startAngle
                                                  totalAngle i])) []
                  of Inl e \<Rightarrow> Inl e
                   | Inr ps \<Rightarrow> Inr (s\<lparr>elementPositions := ps\<rparr>)))"

section \<open>Phase delays\<close>

text \<open>
  The phase that one pass of the loop of \<^verbatim>\<open>_calculatePhaseDelays\<close> computes for the
  element \<open>elemPos\<close>.  \<^verbatim>\<open>focalPoint\<close> is an object or \<^verbatim>\<open>null\<close>.
\<close>

definition element_phase ::
  "phased_array \<Rightarrow> jsnum \<Rightarrow> jsnum \<Rightarrow> jsnum \<Rightarrow> point option \<Rightarrow> element \<Rightarrow> jsnum" where
  "element_phase s k sinDir cosDir focalPoint elemPos =
     (case focalPoint of
        Some fp \<Rightarrow>
          (let distToFocus =
                 Math_sqrt (pow2 (pos_x fp - elem_x elemPos) + pow2 (pos_y fp - elem_y elemPos))
           in Fin 0 - k * (distToFocus - focalDistance s))
      | None \<Rightarrow>
          (let offsetX = elem_x elemPos - pos_x (position s);
               offsetY = elem_y elemPos - pos_y (position s);
               projection = offsetX * sinDir + offsetY * cosDir
           in Fin 0 - k * projection))"

text \<open>
  The body of the loop: \<^verbatim>\<open>elemPos = this._elementPositions[i]\<close>, and reading
  \<^verbatim>\<open>elemPos.x\<close> of a missing element throws.
\<close>

definition phase_step ::
  "phased_array \<Rightarrow> jsnum \<Rightarrow> jsnum \<Rightarrow> jsnum \<Rightarrow> point option \<Rightarrow> nat \<Rightarrow> jsnum list
     \<Rightarrow> error + jsnum list" where
  "phase_step s k sinDir cosDir focalPoint i phases =
     (case nth_js (elementPositions s) i of
        None \<Rightarrow> Inl TypeError
      | Some elemPos \<Rightarrow> Inr (phases @ [element_phase s k sinDir cosDir focalPoint elemPos]))"

definition calculatePhaseDelays :: "phased_array \<Rightarrow> error + phased_array" where
  "calculatePhaseDelays s =
     (let n = numElements s;
          steeringRad = steeringAngle s * Fin pi / Fin 180;
          orientationRad = orientation s * Fin pi / Fin 180;
          k = Fin 2 * Fin pi / wavelength s;
          sinDir = Math_sin (steeringRad + orientationRad);
          cosDir = Math_cos (steeringRad + orientationRad);
          focalPoint =
            (if isFinite (focalDistance s)
             then Some \<lparr>pos_x = pos_x (position s) + focalDistance s * sinDir,
                        pos_y = pos_y (position s) + focalDistance s * cosDir\<rparr>
             else None)
      in case for_upto n (phase_step s k sinDir cosDir focalPoint) [] of
           Inl e \<Rightarrow> Inl e
         | Inr phases \<Rightarrow> Inr (s\<lparr>elementPhases := phases\<rparr>))"

definition recalculate :: "phased_array \<Rightarrow> error + phased_array" where
  "recalculate s =
     (case calculateElementPositions (s\<lparr>wavelength := speedOfSound s / frequency s\<rparr>) of
        Inl e \<Rightarrow> Inl e
      | Inr s1 \<Rightarrow>
          (case calculatePhaseDelays s1 of
             Inl e \<Rightarrow> Inl e
           | Inr s2 \<Rightarrow> Inr (s2\<lparr>dirty := False\<rparr>)))"

definition ensureCalculated :: "phased_array \<Rightarrow> error + phased_array" where
  "ensureCalculated s = (if dirty s then recalculate s else Inr s)"

section \<open>Construction and serialization\<close>

text \<open>
  \<^verbatim>\<open>_generateId\<close> pre-increments the class's counter; the counter is passed in and
  handed back.
\<close>

definition generateId :: "nat \<Rightarrow> nat \<times> nat" where
  "generateId idCounter = (idCounter + 1, idCounter + 1)"

text \<open>
  The fields that the constructor assigns before its initial \<^verbatim>\<open>_recalculate\<close>.  The
  source keeps the position object of the configuration itself; the model keeps its
  value, so a caller that changes that object afterwards is not modelled.
\<close>

definition constructor_fields :: "nat \<Rightarrow> config \<Rightarrow> phased_array" where
  "constructor_fields i cfg =
     \<lparr>array_id = i,
      name = opt_str_or (cfg_name cfg) (''Array '' @ show_nat i),
      numElements = opt_num_or (cfg_numElements cfg) (Fin 16),
      pitch = opt_num_or (cfg_pitch cfg) (Fin 0.005),
      frequency = opt_num_or (cfg_frequency cfg) (Fin 40000),
      steeringAngle = opt_num_or (cfg_steeringAngle cfg) (Fin 0),
      position = (case cfg_position cfg of
                    None \<Rightarrow> \<lparr>pos_x = Fin 0, pos_y = Fin (- 0.1)\<rparr>
                  | Some p \<Rightarrow> p),
      geometry = opt_str_or (cfg_geometry cfg) ''linear'',
      curvatureRadius = opt_num_or (cfg_curvatureRadius cfg) (Fin 0.1),
      orientation = opt_num_or (cfg_orientation cfg) (Fin 0),
      focalDistance = opt_num_or (cfg_focalDistance cfg) PInf,
      amplitude = opt_num_or (cfg_amplitude cfg) (Fin 1.0),
      enabled = True,
      speedOfSound = opt_num_or (cfg_speedOfSound cfg) (Fin 343),
      elementPositions = [],
      elementPhases = [],
      wavelength = Fin 0,
      dirty = True\<rparr>"

definition new_PhasedArray :: "nat \<Rightarrow> config \<Rightarrow> error + phased_array \<times> nat" where
  "new_PhasedArray idCounter cfg =
     (let (i, idCounter') = generateId idCounter
      in case recalculate (constructor_fields i cfg) of
           Inl e \<Rightarrow> Inl e
         | Inr s' \<Rightarrow> Inr (s', idCounter'))"

definition toJSON :: "phased_array \<Rightarrow> config" where
  "toJSON s =
     \<lparr>cfg_name = Some (name s),
      cfg_numElements = Some (numElements s),
      cfg_pitch = Some (pitch s),
      cfg_frequency = Some (frequency s),
      cfg_steeringAngle = Some (steeringAngle s),
      cfg_position = Some (position s),
      cfg_geometry = Some (geometry s),
      cfg_curvatureRadius = Some (curvatureRadius s),
      cfg_orientation = Some (orientation s),
      cfg_focalDistance = Some (focalDistance s),
      cfg_amplitude = Some (amplitude s),
      cfg_speedOfSound = Some (speedOfSound s),
      cfg_enabled = Some (enabled s)\<rparr>"

definition fromJSON :: "nat \<Rightarrow> config \<Rightarrow> error + phased_array \<times> nat" where
  "fromJSON idCounter json = new_PhasedArray idCounter json"

section \<open>Queries\<close>

definition get_wavelength :: "phased_array \<Rightarrow> error + jsnum \<times> phased_array" where
  "get_wavelength s =
     (case ensureCalculated s of Inl e \<Rightarrow> Inl e | Inr s' \<Rightarrow> Inr (wavelength s', s'))"

definition getElementData :: "phased_array \<Rightarrow> error + element_data list \<times> phased_array" where
  "getElementData s =
     (case ensureCalculated s of
        Inl e \<Rightarrow> Inl e
      | Inr s' \<Rightarrow>
          if \<not> enabled s' then Inr ([], s')
          else Inr (map (\<lambda>(i, pos). \<lparr>data_x = elem_x pos, data_y = elem_y pos,
                                     data_phase = nth_js (elementPhases s') i,
                                     data_amplitude = amplitude s'\<rparr>)
                        (enumerate 0 (elementPositions s')), s'))"

definition getAperture :: "phased_array \<Rightarrow> jsnum" where
  "getAperture s =
     (if geometry s = ''linear'' then (numElements s - Fin 1) * pitch s
      else (numElements s - Fin 1) * pitch s)"

text \<open>The callback of the \<^verbatim>\<open>forEach\<close> of \<^verbatim>\<open>calculateBeamPattern\<close>, on the two sums.\<close>

definition beam_step ::
  "phased_array \<Rightarrow> jsnum \<Rightarrow> jsnum \<Rightarrow> jsnum \<times> jsnum \<Rightarrow> nat \<times> element \<Rightarrow> jsnum \<times> jsnum" where
  "beam_step s k angleRad acc ip =
     (case acc of (realSum, imagSum) \<Rightarrow>
      case ip of (i, pos) \<Rightarrow>
        (let phase = to_number (nth_js (elementPhases s) i);
             pathLength = elem_x pos * Math_sin angleRad + elem_y pos * Math_cos angleRad;
             totalPhase = k * pathLength + phase
         in (realSum + amplitude s * Math_cos totalPhase,
             imagSum + amplitude s * Math_sin totalPhase)))"

definition calculateBeamPattern :: "phased_array \<Rightarrow> jsnum \<Rightarrow> error + jsnum \<times> phased_array" where
  "calculateBeamPattern s angle =
     (case ensureCalculated s of
        Inl e \<Rightarrow> Inl e
      | Inr s' \<Rightarrow>
          (let angleRad = angle * Fin pi / Fin 180;
               k = Fin 2 * Fin pi / wavelength s';
               (realSum, imagSum) =
                 foldl (beam_step s' k angleRad) (Fin 0, Fin 0) (enumerate 0 (elementPositions s'));
               maxIntensity = numElements s' * numElements s' * amplitude s' * amplitude s'
           in Inr ((realSum * realSum + imagSum * imagSum) / maxIntensity, s')))"

text \<open>
  The range of a double.  The largest double is \<open>2 ^ 1024 - 2 ^ 971\<close>, and a result whose
  magnitude is \<open>2 ^ 1024 - 2 ^ 970\<close> or more rounds to an infinity.  The arithmetic of
  \<^verbatim>\<open>calculateFieldAt\<close> is modelled with this overflow: the result of each of its
  additions, subtractions, multiplications, divisions and squares goes through
  \<open>overflow\<close>.  The rounding of a result inside the range, and underflow, are not
  modelled.
\<close>

definition double_limit :: real where
  "double_limit = 2 ^ 1024 - 2 ^ 970"

fun overflow :: "jsnum \<Rightarrow> jsnum" where
  "overflow (Fin r) = (if double_limit \<le> \<bar>r\<bar> then signed_inf r else Fin r)"
| "overflow v = v"

declare overflow.simps(1) [simp del]

definition add_d :: "jsnum \<Rightarrow> jsnum \<Rightarrow> jsnum" where
  "add_d a b = overflow (a + b)"

definition sub_d :: "jsnum \<Rightarrow> jsnum \<Rightarrow> jsnum" where
  "sub_d a b = overflow (a - b)"

definition mul_d :: "jsnum \<Rightarrow> jsnum \<Rightarrow> jsnum" where
  "mul_d a b = overflow (a * b)"

definition div_d :: "jsnum \<Rightarrow> jsnum \<Rightarrow> jsnum" where
  "div_d a b = overflow (a / b)"

definition pow2_d :: "jsnum \<Rightarrow> jsnum" where
  "pow2_d a = overflow (pow2 a)"

text \<open>
  The callback of the \<^verbatim>\<open>forEach\<close> of \<^verbatim>\<open>calculateFieldAt\<close>: its early \<^verbatim>\<open>return\<close>
  leaves the sum as it is.
\<close>

definition field_step ::
  "phased_array \<Rightarrow> jsnum \<Rightarrow> jsnum \<Rightarrow> jsnum \<Rightarrow> jsnum \<Rightarrow> jsnum \<Rightarrow> jsnum \<Rightarrow> nat \<times> element \<Rightarrow> jsnum" where
  "field_step s k omega qx qy time realSum ip =
     (case ip of (i, pos) \<Rightarrow>
        (let phase = to_number (nth_js (elementPhases s) i);
             dist = Math_sqrt (add_d (pow2_d (sub_d qx (elem_x pos)))
                                     (pow2_d (sub_d qy (elem_y pos))))
         in if dist < Fin 0.0001 then realSum
            else (let amp = div_d (amplitude s) (Math_sqrt (add_d dist (Fin 0.01)));
                      totalPhase = add_d (sub_d (mul_d k dist) (mul_d omega time)) phase
                  in add_d realSum (mul_d amp (Math_cos totalPhase)))))"

text \<open>\<^verbatim>\<open>calculateFieldAt(x, y, time = 0)\<close>: an omitted \<^verbatim>\<open>time\<close> is \<open>None\<close>.\<close>

definition calculateFieldAt ::
  "phased_array \<Rightarrow> jsnum \<Rightarrow> jsnum \<Rightarrow> jsnum option \<Rightarrow> error + jsnum \<times> phased_array" where
  "calculateFieldAt s qx qy time_arg =
     (let time = (case time_arg of None \<Rightarrow> Fin 0 | Some t \<Rightarrow> t)
      in case ensureCalculated s of
           Inl e \<Rightarrow> Inl e
         | Inr s' \<Rightarrow>
             if \<not> enabled s' then Inr (Fin 0, s')
             else (let k = div_d (mul_d (Fin 2) (Fin pi)) (wavelength s');
                       omega = mul_d (mul_d (Fin 2) (Fin pi)) (frequency s');
                       realSum = foldl (field_step s' k omega qx qy time) (Fin 0)
                                   (enumerate 0 (elementPositions s'))
                   in Inr (realSum, s')))"

section \<open>Reachable states\<close>

text \<open>
  The states of an array that a program can produce through the public interface: the
  constructor, then any sequence of setters and queries (a query refreshes the cache).
\<close>

inductive reachable :: "phased_array \<Rightarrow> bool" where
  r_new: "new_PhasedArray idCounter cfg = Inr (s, idCounter') \<Longrightarrow> reachable s"
| r_numElements: "reachable s \<Longrightarrow> reachable (set_numElements v s)"
| r_pitch: "reachable s \<Longrightarrow> reachable (set_pitch v s)"
| r_frequency: "reachable s \<Longrightarrow> reachable (set_frequency v s)"
| r_steeringAngle: "reachable s \<Longrightarrow> reachable (set_steeringAngle v s)"
| r_position: "reachable s \<Longrightarrow> reachable (set_position p s)"
| r_geometry: "reachable s \<Longrightarrow> reachable (set_geometry g s)"
| r_curvatureRadius: "reachable s \<Longrightarrow> reachable (set_curvatureRadius v s)"
| r_orientation: "reachable s \<Longrightarrow> reachable (set_orientation v s)"
| r_focalDistance: "reachable s \<Longrightarrow> reachable (set_focalDistance v s)"
| r_amplitude: "reachable s \<Longrightarrow> reachable (set_amplitude v s)"
| r_enabled: "reachable s \<Longrightarrow> reachable (set_enabled b s)"
| r_speedOfSound: "reachable s \<Longrightarrow> reachable (set_speedOfSound v s)"
| r_wavelength: "reachable s \<Longrightarrow> get_wavelength s = Inr (w, s') \<Longrightarrow> reachable s'"
| r_getElementData: "reachable s \<Longrightarrow> getElementData s = Inr (dat, s') \<Longrightarrow> reachable s'"
| r_beamPattern: "reachable s \<Longrightarrow> calculateBeamPattern s a = Inr (v, s') \<Longrightarrow> reachable s'"
| r_fieldAt: "reachable s \<Longrightarrow> calculateFieldAt s qx qy t = Inr (v, s') \<Longrightarrow> reachable s'"

text \<open>
  A configuration whose numbers are all finite.  The focal distance is left free:
  \<open>Infinity\<close> is its far-field value.
\<close>

definition finite_config :: "phased_array \<Rightarrow> bool" where
  "finite_config s \<longleftrightarrow>
     isFinite (numElements s) \<and> isFinite (pitch s) \<and> isFinite (frequency s) \<and>
     isFinite (steeringAngle s) \<and> isFinite (pos_x (position s)) \<and>
     isFinite (pos_y (position s)) \<and> isFinite (curvatureRadius s) \<and>
     isFinite (orientation s) \<and> isFinite (amplitude s) \<and> isFinite (speedOfSound s)"

text \<open>The number of passes of \<^verbatim>\<open>for (let i = 0; i < n; i++)\<close>, when it is finite.\<close>

fun loop_count :: "jsnum \<Rightarrow> nat option" where
  "loop_count (Fin r) = Some (nat \<lceil>r\<rceil>)"
| "loop_count PInf = None"
| "loop_count NInf = Some 0"
| "loop_count NaN = Some 0"

text \<open>Running a loop body over a list of indices, stopping at the first error.\<close>

fun iterate :: "(nat \<Rightarrow> 'a \<Rightarrow> error + 'a) \<Rightarrow> nat list \<Rightarrow> 'a \<Rightarrow> error + 'a" where
  "iterate body [] acc = Inr acc"
| "iterate body (i # js) acc =
     (case body i acc of Inl e \<Rightarrow> Inl e | Inr acc' \<Rightarrow> iterate body js acc')"


text \<open>
  The element that pass \<open>i\<close> of the loop of \<^verbatim>\<open>_calculateElementPositions\<close> pushes, the
  phase that \<^verbatim>\<open>_calculatePhaseDelays\<close> pushes for an element once \<^verbatim>\<open>_recalculate\<close> has
  set the wavelength, and the object that \<^verbatim>\<open>_recalculate\<close> leaves when both loops make
  \<open>c\<close> passes.
\<close>

definition computed_element :: "phased_array \<Rightarrow> nat \<Rightarrow> element" where
  "computed_element s i =
     (let n = numElements s;
          orientationRad = orientation s * Fin pi / Fin 180
      in if geometry s = ''linear''
         then linear_element s orientationRad ((- ((n - Fin 1) * pitch s)) / Fin 2) i
         else (let totalAngle = ((n - Fin 1) * pitch s) / curvatureRadius s
               in curved_element s orientationRad (curvatureRadius s)
                    ((- totalAngle) / Fin 2) totalAngle i))"

definition computed_phase :: "phased_array \<Rightarrow> element \<Rightarrow> jsnum" where
  "computed_phase s e =
     (let steeringRad = steeringAngle s * Fin pi / Fin 180;
          orientationRad = orientation s * Fin pi / Fin 180;
          k = Fin 2 * Fin pi / (speedOfSound s / frequency s);
          sinDir = Math_sin (steeringRad + orientationRad);
          cosDir = Math_cos (steeringRad + orientationRad);
          focalPoint =
            (if isFinite (focalDistance s)
             then Some \<lparr>pos_x = pos_x (position s) + focalDistance s * sinDir,
                        pos_y = pos_y (position s) + focalDistance s * cosDir\<rparr>
             else None)
      in element_phase s k sinDir cosDir focalPoint e)"

definition refreshed :: "phased_array \<Rightarrow> nat \<Rightarrow> phased_array" where
  "refreshed s c =
     s\<lparr>elementPositions := map (computed_element s) [0..<c],
       elementPhases := map (\<lambda>i. computed_phase s (computed_element s i)) [0..<c],
       wavelength := speedOfSound s / frequency s,
       dirty := False\<rparr>"

text \<open>
  The cache of a clean object holds what \<^verbatim>\<open>_recalculate\<close> would compute from the
  configuration.
\<close>

definition cache_valid :: "phased_array \<Rightarrow> bool" where
  "cache_valid s \<longleftrightarrow>
     (dirty s \<or> (\<exists>c. loop_count (numElements s) = Some c \<and> s = refreshed s c))"


text \<open>What holds of every reachable object.\<close>

definition well_formed :: "phased_array \<Rightarrow> bool" where
  "well_formed s \<longleftrightarrow>
     cache_valid s \<and> numElements s \<noteq> PInf \<and> numElements s \<noteq> Fin 0 \<and>
     pitch s \<noteq> Fin 0 \<and> frequency s \<noteq> Fin 0 \<and> speedOfSound s \<noteq> Fin 0 \<and>
     curvatureRadius s \<noteq> Fin 0 \<and> focalDistance s \<noteq> Fin 0 \<and> geometry s \<noteq> []"


section \<open>A sample object\<close>

text \<open>
  The object that \<^verbatim>\<open>new PhasedArray({numElements: 1})\<close> returns when the id counter is 0:
  one element, at the array's position, with phase 0.
\<close>

definition single_config :: config where
  "single_config = empty_config\<lparr>cfg_numElements := Some (Fin 1)\<rparr>"

definition single_array :: phased_array where
  "single_array =
     \<lparr>array_id = 1,
      name = ''Array 1'',
      numElements = Fin 1,
      pitch = Fin 0.005,
      frequency = Fin 40000,
      steeringAngle = Fin 0,
      position = \<lparr>pos_x = Fin 0, pos_y = Fin (- 0.1)\<rparr>,
      geometry = ''linear'',
      curvatureRadius = Fin 0.1,
      orientation = Fin 0,
      focalDistance = PInf,
      amplitude = Fin 1,
      enabled = True,
      speedOfSound = Fin 343,
      elementPositions =
        [\<lparr>elem_x = Fin 0, elem_y = Fin (- 0.1), localIndex = 0, normalAngle = None\<rparr>],
      elementPhases = [Fin 0],
      wavelength = Fin (343 / 40000),
      dirty = False\<rparr>"


text \<open>The derived attributes that \<^verbatim>\<open>_recalculate\<close> writes.\<close>

definition cache_of :: "phased_array \<Rightarrow> element list \<times> jsnum list \<times> jsnum" where
  "cache_of s = (elementPositions s, elementPhases s, wavelength s)"

text \<open>
  Arrays configured through the setters: a pair of elements focused at distance 0.2 in the
  direction of 30 degrees; and the instance of the specification's test of the beam
  pattern, eleven elements half a wavelength apart steered to 30 degrees.
\<close>

definition focused_pair :: phased_array where
  "focused_pair =
     set_focalDistance (Fin 0.2) (set_steeringAngle (Fin 30) (set_numElements (Fin 2) single_array))"

definition steered_eleven :: phased_array where
  "steered_eleven =
     set_steeringAngle (Fin 30)
       (set_pitch (Fin (0.5 * (343 / 40000))) (set_numElements (Fin 11) single_array))"

text \<open>The sample array after \<^verbatim>\<open>array.amplitude = 0\<close>, and after \<^verbatim>\<open>array.enabled = false\<close>.\<close>

definition muted_single :: phased_array where
  "muted_single = set_amplitude (Fin 0) single_array"

definition disabled_single :: phased_array where
  "disabled_single = set_enabled False single_array"



section \<open>Reference formulas\<close>

text \<open>The real value of a finite number.\<close>

fun real_of_num :: "jsnum \<Rightarrow> real" where
  "real_of_num (Fin a) = a"
| "real_of_num _ = 0"

text \<open>
  The phase formulas as the specification words them (its section 4.2), on reals, with
  angles in degrees: the wave number \<open>k = 2\<pi> / wavelength\<close> with
  \<open>wavelength = speedOfSound / frequency\<close>; the steering direction
  \<open>(sin (steeringAngle + orientation), cos (steeringAngle + orientation))\<close>; in far-field
  mode \<open>phase = - k * (\<Delta>x * sinDir + \<Delta>y * cosDir)\<close> for the element's offset
  \<open>(\<Delta>x, \<Delta>y)\<close> from the array position; in near-field mode
  \<open>phase = - k * (|Fp - e| - F)\<close> with the focal point \<open>Fp = P + F * (sinDir, cosDir)\<close>.
\<close>

definition spec_wave_number :: "real \<Rightarrow> real \<Rightarrow> real" where
  "spec_wave_number c f = 2 * pi / (c / f)"

definition spec_direction :: "real \<Rightarrow> real \<Rightarrow> real \<times> real" where
  "spec_direction steering orient =
     (sin ((steering + orient) * pi / 180), cos ((steering + orient) * pi / 180))"

definition spec_far_field_phase :: "real \<Rightarrow> real \<times> real \<Rightarrow> real \<times> real \<Rightarrow> real" where
  "spec_far_field_phase k dir delta = - k * (fst delta * fst dir + snd delta * snd dir)"

definition spec_focal_point :: "real \<times> real \<Rightarrow> real \<Rightarrow> real \<times> real \<Rightarrow> real \<times> real" where
  "spec_focal_point P F dir = (fst P + F * fst dir, snd P + F * snd dir)"

definition spec_near_field_phase :: "real \<Rightarrow> real \<Rightarrow> real \<times> real \<Rightarrow> real \<times> real \<Rightarrow> real" where
  "spec_near_field_phase k F Fp e =
     - k * (sqrt ((fst Fp - fst e)\<^sup>2 + (snd Fp - snd e)\<^sup>2) - F)"

definition spec_phase :: "phased_array \<Rightarrow> real \<times> real \<Rightarrow> real" where
  "spec_phase s e =
     (let k = spec_wave_number (real_of_num (speedOfSound s)) (real_of_num (frequency s));
          dir = spec_direction (real_of_num (steeringAngle s)) (real_of_num (orientation s));
          P = (real_of_num (pos_x (position s)), real_of_num (pos_y (position s)))
      in case focalDistance s of
           Fin F \<Rightarrow> spec_near_field_phase k F (spec_focal_point P F dir) e
         | _ \<Rightarrow> spec_far_field_phase k dir (fst e - fst P, snd e - snd P))"





section \<open>Properties of the loops and of the cache\<close>

lemma loop_cond: "loop_count n = Some c \<Longrightarrow> (Fin (real i) < n) = (i < c)"
  by (cases n) (auto simp: zless_nat_eq_int_zless less_ceiling_iff)

lemma for_loop_fin:
  "loop_count n = Some c \<Longrightarrow> i \<le> c \<Longrightarrow> for_loop n body i acc = Some (iterate body [i..<c] acc)"
proof (induction "c - i" arbitrary: i acc)
  case 0
  then show ?case by (subst for_loop.simps) (simp add: loop_cond)
next
  case (Suc d)
  then have lt: "i < c" by simp
  have IH: "\<And>acc'. for_loop n body (Suc i) acc' = Some (iterate body [Suc i..<c] acc')"
    using Suc by simp
  show ?case
    using lt Suc.prems(1)
    by (subst for_loop.simps) (simp add: loop_cond upt_conv_Cons IH split: sum.splits)
qed

lemma for_upto_fin:
  "loop_count n = Some c \<Longrightarrow> for_upto n body acc = iterate body [0..<c] acc"
  by (simp add: for_upto_def for_loop_fin)

lemma for_loop_total_body:
  assumes "for_loop n body i acc = Some r"
  shows "(\<forall>j a. \<exists>a'. body j a = Inr a') \<longrightarrow> n \<noteq> PInf"
proof (rule for_loop.raw_induct
    [where P = "\<lambda>n body i acc r. (\<forall>j a. \<exists>a'. body j a = Inr a') \<longrightarrow> n \<noteq> PInf", OF _ assms])
  fix f :: "jsnum \<Rightarrow> (nat \<Rightarrow> 'a \<Rightarrow> error + 'a) \<Rightarrow> nat \<Rightarrow> 'a \<Rightarrow> (error + 'a) option"
  fix n body i acc r
  assume IH: "\<And>n body i acc r. f n body i acc = Some r
                \<Longrightarrow> (\<forall>j a. \<exists>a'. body j a = Inr a') \<longrightarrow> n \<noteq> PInf"
    and step: "(if Fin (real i) < n
                then case body i acc of Inl e \<Rightarrow> Some (Inl e) | Inr acc' \<Rightarrow> f n body (Suc i) acc'
                else Some (Inr acc)) = Some r"
  show "(\<forall>j a. \<exists>a'. body j a = Inr a') \<longrightarrow> n \<noteq> PInf"
  proof
    assume tot: "\<forall>j a. \<exists>a'. body j a = Inr a'"
    show "n \<noteq> PInf"
    proof (cases "Fin (real i) < n")
      case True
      from tot obtain a' where a': "body i acc = Inr a'" by blast
      with True step have "f n body (Suc i) a' = Some r" by simp
      with IH tot show ?thesis by blast
    next
      case False
      then show ?thesis by auto
    qed
  qed
qed

lemma for_upto_PInf:
  "(\<forall>j a. \<exists>a'. body j a = Inr a') \<Longrightarrow> for_upto PInf body acc = Inl NonTermination"
  using for_loop_total_body [of PInf body 0 acc]
  by (cases "for_loop PInf body 0 acc") (auto simp: for_upto_def)

lemma iterate_push: "iterate (\<lambda>i acc. Inr (acc @ [f i])) js acc = Inr (acc @ map f js)"
  by (induction js arbitrary: acc) auto


lemma iterate_phase_step:
  "\<forall>j \<in> set js. j < length (elementPositions s) \<Longrightarrow>
   iterate (phase_step s k sd cd fp) js acc =
     Inr (acc @ map (\<lambda>j. element_phase s k sd cd fp (elementPositions s ! j)) js)"
  by (induction js arbitrary: acc) (auto simp: phase_step_def nth_js_def)

lemma calculateElementPositions_fin:
  assumes "loop_count (numElements s) = Some c"
  shows "calculateElementPositions s = Inr (s\<lparr>elementPositions := map (computed_element s) [0..<c]\<rparr>)"
  using assms
  by (simp add: calculateElementPositions_def computed_element_def Let_def for_upto_fin iterate_push)

lemma calculateElementPositions_inf:
  assumes "numElements s = PInf"
  shows "calculateElementPositions s = Inl NonTermination"
  using assms
  by (simp add: calculateElementPositions_def Let_def for_upto_PInf)

lemma element_phase_cong:
  "focalDistance s = focalDistance t \<Longrightarrow> position s = position t \<Longrightarrow>
   element_phase s = element_phase t"
  by (auto simp: element_phase_def fun_eq_iff split: option.splits)

lemma element_phase_cache [simp]:
  "element_phase (s\<lparr>elementPositions := p\<rparr>) = element_phase s"
  "element_phase (s\<lparr>wavelength := w\<rparr>) = element_phase s"
  by (rule element_phase_cong; simp)+

lemma calculatePhaseDelays_fin:
  assumes "loop_count (numElements s) = Some (length (elementPositions s))"
  shows "calculatePhaseDelays s =
     Inr (s\<lparr>elementPhases :=
              map (\<lambda>e. element_phase s (Fin 2 * Fin pi / wavelength s)
                         (Math_sin (steeringAngle s * Fin pi / Fin 180 + orientation s * Fin pi / Fin 180))
                         (Math_cos (steeringAngle s * Fin pi / Fin 180 + orientation s * Fin pi / Fin 180))
                         (if isFinite (focalDistance s)
                          then Some \<lparr>pos_x = pos_x (position s) + focalDistance s *
                                      Math_sin (steeringAngle s * Fin pi / Fin 180 + orientation s * Fin pi / Fin 180),
                                     pos_y = pos_y (position s) + focalDistance s *
                                      Math_cos (steeringAngle s * Fin pi / Fin 180 + orientation s * Fin pi / Fin 180)\<rparr>
                          else None) e)
                  (elementPositions s)\<rparr>)"
proof -
  have m: "\<And>g. map (\<lambda>j. g (elementPositions s ! j)) [0..<length (elementPositions s)]
             = map g (elementPositions s)"
    by (rule nth_equalityI) simp_all
  show ?thesis
    using assms
    by (simp add: calculatePhaseDelays_def Let_def for_upto_fin iterate_phase_step m)
qed

lemma recalculate_fin:
  assumes "loop_count (numElements s) = Some c"
  shows "recalculate s = Inr (refreshed s c)"
proof -
  let ?s1 = "s\<lparr>wavelength := speedOfSound s / frequency s\<rparr>"
  let ?s2 = "?s1\<lparr>elementPositions := map (computed_element s) [0..<c]\<rparr>"
  have ce: "computed_element ?s1 = computed_element s"
    by (simp add: computed_element_def linear_element_def curved_element_def curved_local_def
        fun_eq_iff Let_def)
  have 1: "calculateElementPositions ?s1 = Inr ?s2"
    using assms by (simp add: calculateElementPositions_fin ce)
  have 2: "calculatePhaseDelays ?s2 =
     Inr (?s2\<lparr>elementPhases := map (computed_phase s) (map (computed_element s) [0..<c])\<rparr>)"
    using assms
    by (subst calculatePhaseDelays_fin) (simp_all add: computed_phase_def Let_def)
  show ?thesis
    by (simp add: recalculate_def 1 2 refreshed_def ce comp_def)
qed

lemma recalculate_inf:
  assumes "numElements s = PInf"
  shows "recalculate s = Inl NonTermination"
  using assms by (simp add: recalculate_def calculateElementPositions_inf)

text \<open>\<^verbatim>\<open>new PhasedArray({numElements: Infinity})\<close> does not return.\<close>

lemma new_PhasedArray_Infinity:
  "cfg_numElements cfg = Some PInf \<Longrightarrow> new_PhasedArray idCounter cfg = Inl NonTermination"
  by (simp add: new_PhasedArray_def generateId_def recalculate_inf constructor_fields_def
      num_or_def)


lemma loop_count_cases:
  "numElements s \<noteq> PInf \<Longrightarrow> \<exists>c. loop_count (numElements s) = Some c"
  by (cases "numElements s") auto

lemma computed_element_cache [simp]:
  "computed_element (s\<lparr>elementPositions := p\<rparr>) = computed_element s"
  "computed_element (s\<lparr>elementPhases := q\<rparr>) = computed_element s"
  "computed_element (s\<lparr>wavelength := w\<rparr>) = computed_element s"
  "computed_element (s\<lparr>dirty := d\<rparr>) = computed_element s"
  "computed_element (s\<lparr>amplitude := a\<rparr>) = computed_element s"
  "computed_element (s\<lparr>enabled := b\<rparr>) = computed_element s"
  by (simp_all add: computed_element_def linear_element_def curved_element_def curved_local_def
      fun_eq_iff Let_def)

lemma element_phase_other [simp]:
  "element_phase (s\<lparr>elementPhases := q\<rparr>) = element_phase s"
  "element_phase (s\<lparr>dirty := d\<rparr>) = element_phase s"
  "element_phase (s\<lparr>amplitude := a\<rparr>) = element_phase s"
  "element_phase (s\<lparr>enabled := b\<rparr>) = element_phase s"
  by (rule element_phase_cong; simp)+

lemma computed_phase_cache [simp]:
  "computed_phase (s\<lparr>elementPositions := p\<rparr>) = computed_phase s"
  "computed_phase (s\<lparr>elementPhases := q\<rparr>) = computed_phase s"
  "computed_phase (s\<lparr>wavelength := w\<rparr>) = computed_phase s"
  "computed_phase (s\<lparr>dirty := d\<rparr>) = computed_phase s"
  "computed_phase (s\<lparr>amplitude := a\<rparr>) = computed_phase s"
  "computed_phase (s\<lparr>enabled := b\<rparr>) = computed_phase s"
  by (simp_all add: computed_phase_def fun_eq_iff Let_def)

lemma refreshed_refreshed [simp]: "refreshed (refreshed s c) c' = refreshed s c'"
  by (simp add: refreshed_def)

lemma refreshed_amplitude: "refreshed (s\<lparr>amplitude := a\<rparr>) c = (refreshed s c)\<lparr>amplitude := a\<rparr>"
  by (simp add: refreshed_def)

lemma refreshed_enabled: "refreshed (s\<lparr>enabled := b\<rparr>) c = (refreshed s c)\<lparr>enabled := b\<rparr>"
  by (simp add: refreshed_def)

lemma refreshed_fields [simp]:
  "numElements (refreshed s c) = numElements s"
  "pitch (refreshed s c) = pitch s"
  "frequency (refreshed s c) = frequency s"
  "steeringAngle (refreshed s c) = steeringAngle s"
  "position (refreshed s c) = position s"
  "geometry (refreshed s c) = geometry s"
  "curvatureRadius (refreshed s c) = curvatureRadius s"
  "orientation (refreshed s c) = orientation s"
  "focalDistance (refreshed s c) = focalDistance s"
  "amplitude (refreshed s c) = amplitude s"
  "enabled (refreshed s c) = enabled s"
  "speedOfSound (refreshed s c) = speedOfSound s"
  "array_id (refreshed s c) = array_id s"
  "name (refreshed s c) = name s"
  "dirty (refreshed s c) = False"
  "wavelength (refreshed s c) = speedOfSound s / frequency s"
  "elementPositions (refreshed s c) = map (computed_element s) [0..<c]"
  "elementPhases (refreshed s c) = map (\<lambda>i. computed_phase s (computed_element s i)) [0..<c]"
  by (simp_all add: refreshed_def)

lemma ensureCalculated_fin:
  assumes "cache_valid s" "loop_count (numElements s) = Some c"
  shows "ensureCalculated s = Inr (refreshed s c)"
proof (cases "dirty s")
  case True
  then show ?thesis using assms(2) by (simp add: ensureCalculated_def recalculate_fin)
next
  case False
  with assms obtain "s = refreshed s c" by (auto simp: cache_valid_def)
  with False show ?thesis by (simp add: ensureCalculated_def)
qed

lemma ensureCalculated_Inr:
  assumes "cache_valid s" "ensureCalculated s = Inr s'"
  shows "\<exists>c. loop_count (numElements s) = Some c \<and> s' = refreshed s c"
proof (cases "dirty s")
  case True
  show ?thesis
  proof (cases "numElements s = PInf")
    case True
    with \<open>dirty s\<close> assms(2) show ?thesis by (simp add: ensureCalculated_def recalculate_inf)
  next
    case False
    then obtain c where c: "loop_count (numElements s) = Some c" using loop_count_cases by blast
    with \<open>dirty s\<close> assms(2) show ?thesis by (auto simp: ensureCalculated_def recalculate_fin)
  qed
next
  case False
  with assms show ?thesis by (auto simp: cache_valid_def ensureCalculated_def)
qed

lemma well_formed_refreshed:
  "well_formed s \<Longrightarrow> loop_count (numElements s) = Some c \<Longrightarrow> well_formed (refreshed s c)"
  by (auto simp: well_formed_def cache_valid_def)

lemma well_formed_ensure:
  "well_formed s \<Longrightarrow> ensureCalculated s = Inr s' \<Longrightarrow> well_formed s'"
  using ensureCalculated_Inr [of s s'] well_formed_refreshed
  by (auto simp: well_formed_def)

lemma Math_max_nonzero: "0 < a \<Longrightarrow> Math_max (Fin a) v \<noteq> Fin 0"
  by (cases v) (auto simp: Math_max_def)

lemma clamp_not_PInf: "Math_max (Fin a) (Math_min (Fin b) v) \<noteq> PInf"
  by (cases v) (auto simp: Math_max_def Math_min_def)

lemma opt_num_or_nonzero: "d \<noteq> Fin 0 \<Longrightarrow> opt_num_or v d \<noteq> Fin 0"
  by (cases v; cases "the v") (auto simp: num_or_def)

lemma opt_str_or_nonempty: "d \<noteq> [] \<Longrightarrow> opt_str_or v d \<noteq> []"
  by (cases v) auto

lemma new_PhasedArray_well_formed:
  assumes "new_PhasedArray idCounter cfg = Inr (s, idCounter')"
  shows "well_formed s"
proof -
  obtain s0 where s0: "recalculate s0 = Inr s" "frequency s0 \<noteq> Fin 0" "speedOfSound s0 \<noteq> Fin 0"
     "curvatureRadius s0 \<noteq> Fin 0" "numElements s0 \<noteq> Fin 0" "pitch s0 \<noteq> Fin 0"
     "focalDistance s0 \<noteq> Fin 0" "geometry s0 \<noteq> []"
    using assms
    by (auto simp: new_PhasedArray_def generateId_def constructor_fields_def Let_def
        opt_num_or_nonzero opt_str_or_nonempty split: sum.splits)
  have n: "numElements s0 \<noteq> PInf" using s0(1) recalculate_inf [of s0] by auto
  then obtain c where c: "loop_count (numElements s0) = Some c" using loop_count_cases by blast
  with s0(1) have "s = refreshed s0 c" by (simp add: recalculate_fin)
  with s0 n c show ?thesis by (auto simp: well_formed_def cache_valid_def)
qed

lemma reachable_well_formed: "reachable s \<Longrightarrow> well_formed s"
proof (induction rule: reachable.induct)
  case (r_new idCounter cfg s idCounter')
  then show ?case by (rule new_PhasedArray_well_formed)
next
  case (r_numElements s v)
  then show ?case
    by (simp add: well_formed_def cache_valid_def set_numElements_def clamp_not_PInf Math_max_nonzero)
next
  case (r_pitch s v)
  then show ?case by (simp add: well_formed_def cache_valid_def set_pitch_def Math_max_nonzero)
next
  case (r_frequency s v)
  then show ?case by (simp add: well_formed_def cache_valid_def set_frequency_def Math_max_nonzero)
next
  case (r_steeringAngle s v)
  then show ?case by (simp add: well_formed_def cache_valid_def set_steeringAngle_def)
next
  case (r_position s p)
  then show ?case by (simp add: well_formed_def cache_valid_def set_position_def)
next
  case (r_geometry s g)
  then show ?case by (simp add: well_formed_def cache_valid_def set_geometry_def)
next
  case (r_curvatureRadius s v)
  then show ?case by (simp add: well_formed_def cache_valid_def set_curvatureRadius_def Math_max_nonzero)
next
  case (r_orientation s v)
  then show ?case by (simp add: well_formed_def cache_valid_def set_orientation_def)
next
  case (r_focalDistance s v)
  then show ?case
    by (cases v) (auto simp: well_formed_def cache_valid_def set_focalDistance_def)
next
  case (r_amplitude s v)
  then show ?case
    by (auto simp: well_formed_def cache_valid_def set_amplitude_def refreshed_amplitude)
next
  case (r_enabled s b)
  then show ?case
    by (auto simp: well_formed_def cache_valid_def set_enabled_def refreshed_enabled)
next
  case (r_speedOfSound s v)
  then show ?case by (simp add: well_formed_def cache_valid_def set_speedOfSound_def Math_max_nonzero)
next
  case (r_wavelength s w s')
  then show ?case
    by (auto simp: get_wavelength_def split: sum.splits intro: well_formed_ensure)
next
  case (r_getElementData s dat s')
  then show ?case
    by (auto simp: getElementData_def split: sum.splits if_splits intro: well_formed_ensure)
next
  case (r_beamPattern s a v s')
  then show ?case
    by (auto simp: calculateBeamPattern_def Let_def split: sum.splits prod.splits intro: well_formed_ensure)
next
  case (r_fieldAt s qx qy t v s')
  then show ?case
    by (auto simp: calculateFieldAt_def Let_def split: sum.splits if_splits intro: well_formed_ensure)
qed


section \<open>The sample object is reachable\<close>

lemma show_nat_1: "show_nat (Suc 0) = ''1''"
  by (subst show_nat.simps) simp

lemma new_single_array: "new_PhasedArray 0 single_config = Inr (single_array, 1)"
  by (simp add: new_PhasedArray_def generateId_def constructor_fields_def single_config_def
      empty_config_def recalculate_fin refreshed_def single_array_def show_nat_1 num_or_def
      computed_element_def computed_phase_def linear_element_def element_phase_def
      minus_jsnum_def Let_def)

lemma reachable_single_array: "reachable single_array"
  using new_single_array by (rule r_new)


section \<open>The orientation setter\<close>

lemma trunc_unit: "- 1 < x \<Longrightarrow> x < 1 \<Longrightarrow> trunc x = 0"
proof -
  assume a: "- 1 < x" "x < 1"
  show ?thesis
  proof (cases "0 \<le> x")
    case True
    with a have "\<lfloor>x\<rfloor> = 0" by (simp add: floor_eq_iff)
    with True show ?thesis by (simp add: trunc_def)
  next
    case False
    with a have "\<lceil>x\<rceil> = 0" by (simp add: ceiling_eq_iff)
    with False show ?thesis by (simp add: trunc_def)
  qed
qed

lemma rem_bounds:
  fixes a b :: real
  assumes "0 < b"
  shows "- b < a - b * of_int (trunc (a / b)) \<and> a - b * of_int (trunc (a / b)) < b"
proof (cases "0 \<le> a / b")
  case True
  define q :: real where "q = of_int \<lfloor>a / b\<rfloor>"
  have "q \<le> a / b" "a / b < q + 1" unfolding q_def by linarith+
  then have "q * b \<le> a" "a < (q + 1) * b"
    using assms by (simp_all add: pos_le_divide_eq pos_divide_less_eq)
  then have "0 \<le> a - b * q" "a - b * q < b"
    by (simp_all add: algebra_simps)
  with True assms show ?thesis by (simp add: trunc_def q_def)
next
  case False
  define q :: real where "q = of_int \<lceil>a / b\<rceil>"
  have "q - 1 < a / b" "a / b \<le> q" unfolding q_def by linarith+
  then have "(q - 1) * b < a" "a \<le> q * b"
    using assms by (simp_all add: pos_less_divide_eq pos_divide_le_eq)
  then have "- b < a - b * q" "a - b * q \<le> 0"
    by (simp_all add: algebra_simps)
  with False assms show ?thesis by (simp add: trunc_def q_def)
qed

lemma rem_sign:
  fixes a b :: real
  assumes "0 < b"
  shows "(0 \<le> a \<longrightarrow> 0 \<le> a - b * of_int (trunc (a / b))) \<and>
         (a \<le> 0 \<longrightarrow> a - b * of_int (trunc (a / b)) \<le> 0)"
proof (cases "0 \<le> a / b")
  case True
  define q :: real where "q = of_int \<lfloor>a / b\<rfloor>"
  have "q \<le> a / b" unfolding q_def by linarith
  then have "q * b \<le> a" using assms by (simp add: pos_le_divide_eq)
  then have r: "0 \<le> a - b * q" by (simp add: algebra_simps)
  have "a \<le> 0 \<longrightarrow> a = 0" using True assms by (simp add: zero_le_divide_iff)
  with r True show ?thesis by (auto simp: trunc_def q_def)
next
  case False
  define q :: real where "q = of_int \<lceil>a / b\<rceil>"
  have "a / b \<le> q" unfolding q_def by linarith
  then have "a \<le> q * b" using assms by (simp add: pos_divide_le_eq)
  then have r: "a - b * q \<le> 0" by (simp add: algebra_simps)
  have "\<not> 0 \<le> a" using False assms by (simp add: zero_le_divide_iff)
  with r False show ?thesis by (auto simp: trunc_def q_def)
qed

lemma trunc_values: "trunc (370 / 360) = 1" "trunc (- 725 / 360) = - 2" "trunc (360 / 360) = 1"
proof -
  have "\<lfloor>370 / 360 :: real\<rfloor> = 1" by (simp add: floor_eq_iff)
  then show "trunc (370 / 360) = 1" by (simp add: trunc_def)
  have "\<lceil>- 725 / 360 :: real\<rceil> = - 2" by (simp add: ceiling_eq_iff)
  then show "trunc (- 725 / 360) = - 2" by (simp add: trunc_def)
  show "trunc (360 / 360) = 1" by (simp add: trunc_def)
qed

text \<open>
  C10: the orientation setter stores \<^verbatim>\<open>value % 360\<close>, the remainder of the division
  truncated towards zero.  For a finite value \<open>v\<close> the stored number is
  \<open>v - 360 * trunc (v / 360)\<close>: it differs from \<open>v\<close> by a whole multiple of 360, lies
  strictly between -360 and 360 and has the sign of \<open>v\<close>, so it is not reduced to
  \<open>[0, 360)\<close>.  An input strictly between -360 and 0 is stored unchanged; -10 is stored
  as -10, 370 as 10, -725 as -5.  A value that is not finite is stored as \<open>NaN\<close>.
\<close>

theorem set_orientation_remainder:
  "orientation (set_orientation (Fin v) s) = Fin (v - 360 * of_int (trunc (v / 360))) \<and>
   (\<exists>r q. orientation (set_orientation (Fin v) s) = Fin r \<and> v = 360 * of_int q + r \<and>
      - 360 < r \<and> r < 360 \<and> (0 \<le> v \<longrightarrow> 0 \<le> r) \<and> (v \<le> 0 \<longrightarrow> r \<le> 0)) \<and>
   (- 360 < v \<and> v < 0 \<longrightarrow> orientation (set_orientation (Fin v) s) = Fin v) \<and>
   orientation (set_orientation (Fin (- 10)) s) = Fin (- 10) \<and>
   orientation (set_orientation (Fin 370) s) = Fin 10 \<and>
   orientation (set_orientation (Fin (- 725)) s) = Fin (- 5) \<and>
   (\<not> isFinite w \<longrightarrow> orientation (set_orientation w s) = NaN)"
proof (intro conjI impI)
  show "orientation (set_orientation (Fin v) s) = Fin (v - 360 * of_int (trunc (v / 360)))"
    by (simp add: set_orientation_def)
next
  show "\<exists>r q. orientation (set_orientation (Fin v) s) = Fin r \<and> v = 360 * of_int q + r \<and>
      - 360 < r \<and> r < 360 \<and> (0 \<le> v \<longrightarrow> 0 \<le> r) \<and> (v \<le> 0 \<longrightarrow> r \<le> 0)"
    using rem_bounds [of 360 v] rem_sign [of 360 v]
    by (intro exI [of _ "v - 360 * of_int (trunc (v / 360))"] exI [of _ "trunc (v / 360)"])
       (simp add: set_orientation_def)
next
  assume "- 360 < v \<and> v < 0"
  then have "trunc (v / 360) = 0" by (intro trunc_unit) simp_all
  then show "orientation (set_orientation (Fin v) s) = Fin v"
    by (simp add: set_orientation_def)
next
  have "trunc (- 10 / 360) = 0" by (intro trunc_unit) simp_all
  then show "orientation (set_orientation (Fin (- 10)) s) = Fin (- 10)"
    by (simp add: set_orientation_def)
next
  show "orientation (set_orientation (Fin 370) s) = Fin 10"
    using trunc_values(1) by (simp add: set_orientation_def)
next
  show "orientation (set_orientation (Fin (- 725)) s) = Fin (- 5)"
    using trunc_values(2) by (simp add: set_orientation_def)
next
  assume "\<not> isFinite w"
  then show "orientation (set_orientation w s) = NaN"
    by (cases w) (simp_all add: set_orientation_def)
qed

theorem set_orientation_remainder_witness:
  "(- 360 < (- 350 :: real) \<and> (- 350 :: real) < 0) \<and> \<not> isFinite PInf \<and>
   orientation (set_orientation (Fin (- 350)) single_array) = Fin (- 350) \<and>
   orientation (set_orientation (Fin (- 10)) single_array) = Fin (- 10) \<and>
   orientation (set_orientation (Fin 370) single_array) = Fin 10 \<and>
   orientation (set_orientation (Fin (- 725)) single_array) = Fin (- 5) \<and>
   orientation (set_orientation PInf single_array) = NaN"
proof -
  have h: "- 360 < (- 350 :: real) \<and> (- 350 :: real) < 0" by simp
  have f: "\<not> isFinite PInf" by simp
  note t = set_orientation_remainder [of "- 350" single_array PInf]
  from t h have 1: "orientation (set_orientation (Fin (- 350)) single_array) = Fin (- 350)"
    by blast
  from t have 2: "orientation (set_orientation (Fin (- 10)) single_array) = Fin (- 10)"
    and 3: "orientation (set_orientation (Fin 370) single_array) = Fin 10"
    and 4: "orientation (set_orientation (Fin (- 725)) single_array) = Fin (- 5)"
    by blast+
  from t f have 5: "orientation (set_orientation PInf single_array) = NaN"
    by blast
  show ?thesis
    by (intro conjI h f 1 2 3 4 5)
qed

section \<open>Setters and the dirty flag\<close>

lemma clamp_Fin:
  "Math_max (Fin lo) (Fin r) = Fin (max lo r)"
  "Math_max (Fin lo) (Math_min (Fin hi) (Fin r)) = Fin (max lo (min hi r))"
  by (auto simp: Math_max_def Math_min_def max_def min_def)

text \<open>
  C4, as the code has it: the setters of the ten attributes that the cache depends on set
  the dirty flag; the setters of \<^verbatim>\<open>amplitude\<close> and \<^verbatim>\<open>enabled\<close> leave the flag as it is;
  no setter touches the cached element positions, phases or wavelength; and on a finite
  argument \<open>r\<close> each setter stores the clamped, wrapped or coerced value.
\<close>

theorem setters_and_dirty_flag:
  "dirty (set_numElements v s) \<and> dirty (set_pitch v s) \<and> dirty (set_frequency v s) \<and>
   dirty (set_steeringAngle v s) \<and> dirty (set_position p s) \<and> dirty (set_geometry g s) \<and>
   dirty (set_curvatureRadius v s) \<and> dirty (set_orientation v s) \<and>
   dirty (set_focalDistance v s) \<and> dirty (set_speedOfSound v s) \<and>
   dirty (set_amplitude v s) = dirty s \<and> dirty (set_enabled b s) = dirty s \<and>
   cache_of (set_numElements v s) = cache_of s \<and> cache_of (set_pitch v s) = cache_of s \<and>
   cache_of (set_frequency v s) = cache_of s \<and> cache_of (set_steeringAngle v s) = cache_of s \<and>
   cache_of (set_position p s) = cache_of s \<and> cache_of (set_geometry g s) = cache_of s \<and>
   cache_of (set_curvatureRadius v s) = cache_of s \<and> cache_of (set_orientation v s) = cache_of s \<and>
   cache_of (set_focalDistance v s) = cache_of s \<and> cache_of (set_speedOfSound v s) = cache_of s \<and>
   cache_of (set_amplitude v s) = cache_of s \<and> cache_of (set_enabled b s) = cache_of s \<and>
   numElements (set_numElements (Fin r) s) = Fin (max 1 (min 64 (of_int \<lfloor>r + 1 / 2\<rfloor>))) \<and>
   pitch (set_pitch (Fin r) s) = Fin (max 0.001 r) \<and>
   frequency (set_frequency (Fin r) s) = Fin (max 0.1 r) \<and>
   steeringAngle (set_steeringAngle (Fin r) s) = Fin (max (- 90) (min 90 r)) \<and>
   position (set_position \<lparr>pos_x = Fin x, pos_y = Fin y\<rparr> s) = \<lparr>pos_x = Fin x, pos_y = Fin y\<rparr> \<and>
   geometry (set_geometry g s) = (if g = ''curved'' then ''curved'' else ''linear'') \<and>
   curvatureRadius (set_curvatureRadius (Fin r) s) = Fin (max 0.01 r) \<and>
   orientation (set_orientation (Fin r) s) = Fin (r - 360 * of_int (trunc (r / 360))) \<and>
   focalDistance (set_focalDistance (Fin r) s) = (if r \<le> 0 then PInf else Fin r) \<and>
   amplitude (set_amplitude (Fin r) s) = Fin (max 0 (min 2 r)) \<and>
   enabled (set_enabled b s) = b \<and>
   speedOfSound (set_speedOfSound (Fin r) s) = Fin (max 0.1 r)"
  by (simp add: set_numElements_def set_pitch_def set_frequency_def set_steeringAngle_def
      set_position_def set_geometry_def set_curvatureRadius_def set_orientation_def
      set_focalDistance_def set_speedOfSound_def set_amplitude_def set_enabled_def cache_of_def
      clamp_Fin num_or_def)

text \<open>
  C4 as stated fails: on a freshly constructed array, which is clean, setting the
  amplitude or the enabled flag leaves the array clean.
\<close>

theorem amplitude_enabled_leave_clean:
  "new_PhasedArray 0 single_config = Inr (single_array, 1) \<and>
   \<not> dirty (set_amplitude (Fin 2) single_array) \<and>
   \<not> dirty (set_enabled False single_array)"
  by (simp add: new_single_array) (simp add: set_amplitude_def set_enabled_def single_array_def)

section \<open>Element data\<close>

lemma enumerate_map_upt: "enumerate 0 (map f [0..<c]) = map (\<lambda>i. (i, f i)) [0..<c]"
  by (simp add: enumerate_eq_zip zip_map2 zip_same_conv_map)

lemma nth_js_map_upt: "i < c \<Longrightarrow> nth_js (map f [0..<c]) i = Some (f i)"
  by (simp add: nth_js_def)

lemma reachable_loop_count: "reachable s \<Longrightarrow> \<exists>c. loop_count (numElements s) = Some c"
  using reachable_well_formed [of s] loop_count_cases [of s] by (simp add: well_formed_def)

lemma getElementData_fin:
  assumes "cache_valid s" "loop_count (numElements s) = Some c"
  shows "getElementData s =
     Inr (if enabled s
          then map (\<lambda>i. \<lparr>data_x = elem_x (computed_element s i),
                         data_y = elem_y (computed_element s i),
                         data_phase = Some (computed_phase s (computed_element s i)),
                         data_amplitude = amplitude s\<rparr>) [0..<c]
          else [], refreshed s c)"
  using assms
  by (simp add: getElementData_def ensureCalculated_fin enumerate_map_upt nth_js_map_upt)

text \<open>
  C5: on every reachable object whose \<^verbatim>\<open>numElements\<close> is a whole number \<open>n\<close>,
  \<^verbatim>\<open>getElementData\<close> returns, whether the object is dirty or clean: \<open>n\<close> entries when the
  array is enabled, each with a phase and the array's amplitude, and no entry when it is
  disabled.
\<close>

theorem getElementData_count:
  assumes "reachable s" and "numElements s = Fin (real n)"
  shows "\<exists>dat s'. getElementData s = Inr (dat, s') \<and>
           length dat = (if enabled s then n else 0) \<and>
           (\<forall>d \<in> set dat. data_phase d \<noteq> None \<and> data_amplitude d = amplitude s)"
proof -
  have cv: "cache_valid s" using assms(1) reachable_well_formed by (simp add: well_formed_def)
  have lc: "loop_count (numElements s) = Some n" using assms(2) by simp
  show ?thesis
    by (simp add: getElementData_fin [OF cv lc]) auto
qed

theorem getElementData_count_witness:
  "reachable (set_numElements (Fin 11) single_array) \<and>
   numElements (set_numElements (Fin 11) single_array) = Fin (real 11) \<and>
   (\<exists>dat s'. getElementData (set_numElements (Fin 11) single_array) = Inr (dat, s') \<and>
      length dat = 11) \<and>
   (\<exists>s'. getElementData (set_enabled False (set_numElements (Fin 11) single_array)) = Inr ([], s'))"
proof -
  have r: "reachable (set_numElements (Fin 11) single_array)"
    by (intro r_numElements reachable_single_array)
  have n: "numElements (set_numElements (Fin 11) single_array) = Fin (real 11)"
    by (simp add: set_numElements_def Math_max_def Math_min_def)
  have e: "enabled (set_numElements (Fin 11) single_array)"
    by (simp add: set_numElements_def single_array_def)
  have r': "reachable (set_enabled False (set_numElements (Fin 11) single_array))"
    by (intro r_enabled r)
  have n': "numElements (set_enabled False (set_numElements (Fin 11) single_array)) = Fin (real 11)"
    using n by (simp add: set_enabled_def)
  have e': "\<not> enabled (set_enabled False (set_numElements (Fin 11) single_array))"
    by (simp add: set_enabled_def)
  show ?thesis
    using getElementData_count [OF r n] getElementData_count [OF r' n'] r n e e'
    by auto
qed


section \<open>The enabled flag\<close>

lemma beam_step_enabled [simp]: "beam_step (s\<lparr>enabled := b\<rparr>) = beam_step s"
  by (simp add: beam_step_def fun_eq_iff)

lemma calculateBeamPattern_fin:
  assumes "cache_valid s" "loop_count (numElements s) = Some c"
  shows "calculateBeamPattern s a =
     Inr (case foldl (beam_step (refreshed s c) (Fin 2 * Fin pi / (speedOfSound s / frequency s))
                        (a * Fin pi / Fin 180))
                 (Fin 0, Fin 0) (map (\<lambda>i. (i, computed_element s i)) [0..<c]) of
            (realSum, imagSum) \<Rightarrow>
              (realSum * realSum + imagSum * imagSum) /
                (numElements s * numElements s * amplitude s * amplitude s),
          refreshed s c)"
  using assms
  by (simp add: calculateBeamPattern_def ensureCalculated_fin enumerate_map_upt Let_def
      split: prod.splits)

lemma cache_valid_set_enabled: "cache_valid s \<Longrightarrow> cache_valid (set_enabled b s)"
  by (auto simp: cache_valid_def set_enabled_def refreshed_enabled)

text \<open>
  C9: \<^verbatim>\<open>calculateBeamPattern\<close> does not read the enabled flag.  On every reachable object
  it returns the same intensity whether the array is enabled or disabled, whereas on the
  disabled array \<^verbatim>\<open>getElementData\<close> returns the empty sequence and \<^verbatim>\<open>calculateFieldAt\<close>
  returns 0.
\<close>

theorem beam_pattern_ignores_enabled:
  assumes "reachable s"
  shows "\<exists>v s'. calculateBeamPattern (set_enabled True s) a = Inr (v, set_enabled True s') \<and>
                calculateBeamPattern (set_enabled False s) a = Inr (v, set_enabled False s') \<and>
                getElementData (set_enabled False s) = Inr ([], set_enabled False s') \<and>
                calculateFieldAt (set_enabled False s) qx qy t = Inr (Fin 0, set_enabled False s')"
proof -
  have cv: "cache_valid s" using assms reachable_well_formed by (simp add: well_formed_def)
  obtain c where c: "loop_count (numElements s) = Some c"
    using assms reachable_loop_count by blast
  have cb: "\<And>b. cache_valid (set_enabled b s)" using cv by (rule cache_valid_set_enabled)
  have lb: "\<And>b. loop_count (numElements (set_enabled b s)) = Some c"
    using c by (simp add: set_enabled_def)
  have rb: "\<And>b. refreshed (set_enabled b s) c = set_enabled b (refreshed s c)"
    by (simp add: set_enabled_def refreshed_enabled)
  have bp: "\<And>b. calculateBeamPattern (set_enabled b s) a =
     Inr (case foldl (beam_step (refreshed s c) (Fin 2 * Fin pi / (speedOfSound s / frequency s))
                        (a * Fin pi / Fin 180))
                 (Fin 0, Fin 0) (map (\<lambda>i. (i, computed_element s i)) [0..<c]) of
            (realSum, imagSum) \<Rightarrow>
              (realSum * realSum + imagSum * imagSum) /
                (numElements s * numElements s * amplitude s * amplitude s),
          set_enabled b (refreshed s c))"
    by (simp add: calculateBeamPattern_fin [OF cb lb] rb) (simp add: set_enabled_def)
  have ged: "getElementData (set_enabled False s) = Inr ([], set_enabled False (refreshed s c))"
    by (simp add: getElementData_fin [OF cb lb] rb) (simp add: set_enabled_def)
  have cfa: "calculateFieldAt (set_enabled False s) qx qy t
               = Inr (Fin 0, set_enabled False (refreshed s c))"
    by (simp add: calculateFieldAt_def ensureCalculated_fin [OF cb lb] rb)
       (simp add: set_enabled_def)
  show ?thesis using bp ged cfa by blast
qed

lemma single_array_clean: "ensureCalculated (set_enabled b single_array) = Inr (set_enabled b single_array)"
  by (simp add: ensureCalculated_def set_enabled_def single_array_def)

lemma single_array_beam:
  "calculateBeamPattern (set_enabled b single_array) (Fin 0) = Inr (Fin 1, set_enabled b single_array)"
  by (simp add: calculateBeamPattern_def single_array_clean)
     (simp add: set_enabled_def single_array_def beam_step_def nth_js_def Let_def)

theorem beam_pattern_ignores_enabled_witness:
  "reachable single_array \<and>
   calculateBeamPattern (set_enabled True single_array) (Fin 0)
     = Inr (Fin 1, set_enabled True single_array) \<and>
   calculateBeamPattern (set_enabled False single_array) (Fin 0)
     = Inr (Fin 1, set_enabled False single_array) \<and>
   getElementData (set_enabled False single_array) = Inr ([], set_enabled False single_array) \<and>
   calculateFieldAt (set_enabled False single_array) (Fin 0) (Fin 0) None
     = Inr (Fin 0, set_enabled False single_array)"
  using beam_pattern_ignores_enabled [OF reachable_single_array, of "Fin 0" "Fin 0" "Fin 0" None]
    reachable_single_array single_array_beam [of True] single_array_beam [of False]
  by auto

section \<open>The constructor\<close>

lemma new_PhasedArray_fin:
  assumes "loop_count (numElements (constructor_fields (Suc idCounter) cfg)) = Some c"
  shows "new_PhasedArray idCounter cfg
           = Inr (refreshed (constructor_fields (Suc idCounter) cfg) c, Suc idCounter)"
  using assms by (simp add: new_PhasedArray_def generateId_def recalculate_fin)

lemma opt_num_or_PInf: "v \<noteq> Some PInf \<Longrightarrow> d \<noteq> PInf \<Longrightarrow> opt_num_or v d \<noteq> PInf"
  by (cases v) (auto simp: num_or_def)

text \<open>
  C8: the constructor returns for every configuration whose \<^verbatim>\<open>numElements\<close> is not
  \<open>Infinity\<close>, and in the object it returns \<^verbatim>\<open>enabled\<close> is true whatever the
  configuration says, and every field whose configured value is falsy (0, \<open>NaN\<close> or the
  empty string) holds its default: amplitude 0 becomes 1.  So deserializing the
  serialization of a reachable array \<open>t\<close> gives an enabled array, with amplitude 1 when
  the amplitude of \<open>t\<close> is 0.
\<close>

theorem constructor_replaces_falsy_fields:
  assumes "cfg_numElements cfg \<noteq> Some PInf" and "reachable t"
  shows "\<exists>s u. new_PhasedArray idCounter cfg = Inr (s, Suc idCounter) \<and>
           enabled s \<and>
           (\<forall>v. \<not> truthy v \<longrightarrow>
              (cfg_numElements cfg = Some v \<longrightarrow> numElements s = Fin 16) \<and>
              (cfg_pitch cfg = Some v \<longrightarrow> pitch s = Fin 0.005) \<and>
              (cfg_frequency cfg = Some v \<longrightarrow> frequency s = Fin 40000) \<and>
              (cfg_steeringAngle cfg = Some v \<longrightarrow> steeringAngle s = Fin 0) \<and>
              (cfg_curvatureRadius cfg = Some v \<longrightarrow> curvatureRadius s = Fin 0.1) \<and>
              (cfg_orientation cfg = Some v \<longrightarrow> orientation s = Fin 0) \<and>
              (cfg_focalDistance cfg = Some v \<longrightarrow> focalDistance s = PInf) \<and>
              (cfg_amplitude cfg = Some v \<longrightarrow> amplitude s = Fin 1) \<and>
              (cfg_speedOfSound cfg = Some v \<longrightarrow> speedOfSound s = Fin 343)) \<and>
           (cfg_name cfg = Some [] \<longrightarrow> name s = ''Array '' @ show_nat (Suc idCounter)) \<and>
           (cfg_geometry cfg = Some [] \<longrightarrow> geometry s = ''linear'') \<and>
           fromJSON idCounter (toJSON t) = Inr (u, Suc idCounter) \<and>
           enabled u \<and>
           (amplitude t = Fin 0 \<longrightarrow> amplitude u = Fin 1)"
proof -
  let ?s0 = "constructor_fields (Suc idCounter) cfg"
  let ?u0 = "constructor_fields (Suc idCounter) (toJSON t)"
  have "numElements ?s0 \<noteq> PInf"
    using assms(1) by (simp add: constructor_fields_def opt_num_or_PInf)
  then obtain c where c: "loop_count (numElements ?s0) = Some c"
    using loop_count_cases by blast
  have "numElements t \<noteq> PInf"
    using assms(2) reachable_well_formed by (simp add: well_formed_def)
  then have "numElements ?u0 \<noteq> PInf"
    by (simp add: constructor_fields_def toJSON_def num_or_def)
  then obtain d where d: "loop_count (numElements ?u0) = Some d"
    using loop_count_cases by blast
  have s: "new_PhasedArray idCounter cfg = Inr (refreshed ?s0 c, Suc idCounter)"
    using c by (rule new_PhasedArray_fin)
  have u: "fromJSON idCounter (toJSON t) = Inr (refreshed ?u0 d, Suc idCounter)"
    using d by (simp add: fromJSON_def new_PhasedArray_fin)
  have e: "enabled (refreshed ?s0 c)" "enabled (refreshed ?u0 d)"
    by (simp_all add: constructor_fields_def)
  have f: "\<forall>v. \<not> truthy v \<longrightarrow>
              (cfg_numElements cfg = Some v \<longrightarrow> numElements (refreshed ?s0 c) = Fin 16) \<and>
              (cfg_pitch cfg = Some v \<longrightarrow> pitch (refreshed ?s0 c) = Fin 0.005) \<and>
              (cfg_frequency cfg = Some v \<longrightarrow> frequency (refreshed ?s0 c) = Fin 40000) \<and>
              (cfg_steeringAngle cfg = Some v \<longrightarrow> steeringAngle (refreshed ?s0 c) = Fin 0) \<and>
              (cfg_curvatureRadius cfg = Some v \<longrightarrow> curvatureRadius (refreshed ?s0 c) = Fin 0.1) \<and>
              (cfg_orientation cfg = Some v \<longrightarrow> orientation (refreshed ?s0 c) = Fin 0) \<and>
              (cfg_focalDistance cfg = Some v \<longrightarrow> focalDistance (refreshed ?s0 c) = PInf) \<and>
              (cfg_amplitude cfg = Some v \<longrightarrow> amplitude (refreshed ?s0 c) = Fin 1) \<and>
              (cfg_speedOfSound cfg = Some v \<longrightarrow> speedOfSound (refreshed ?s0 c) = Fin 343)"
    by (simp add: constructor_fields_def num_or_def)
  have g: "cfg_name cfg = Some [] \<longrightarrow> name (refreshed ?s0 c) = ''Array '' @ show_nat (Suc idCounter)"
    "cfg_geometry cfg = Some [] \<longrightarrow> geometry (refreshed ?s0 c) = ''linear''"
    by (simp_all add: constructor_fields_def)
  have a: "amplitude t = Fin 0 \<longrightarrow> amplitude (refreshed ?u0 d) = Fin 1"
    by (simp add: constructor_fields_def toJSON_def num_or_def)
  show ?thesis
    using s u e f g a by blast
qed

theorem constructor_replaces_falsy_fields_witness:
  "cfg_numElements (single_config\<lparr>cfg_enabled := Some False, cfg_amplitude := Some (Fin 0)\<rparr>)
     \<noteq> Some PInf \<and>
   reachable (set_amplitude (Fin 0) (set_enabled False single_array)) \<and>
   \<not> enabled (set_amplitude (Fin 0) (set_enabled False single_array)) \<and>
   amplitude (set_amplitude (Fin 0) (set_enabled False single_array)) = Fin 0 \<and>
   (\<exists>s u. new_PhasedArray 0 (single_config\<lparr>cfg_enabled := Some False, cfg_amplitude := Some (Fin 0)\<rparr>)
            = Inr (s, Suc 0) \<and>
          enabled s \<and> amplitude s = Fin 1 \<and>
          fromJSON 0 (toJSON (set_amplitude (Fin 0) (set_enabled False single_array)))
            = Inr (u, Suc 0) \<and>
          enabled u \<and> amplitude u = Fin 1)"
proof -
  let ?cfg = "single_config\<lparr>cfg_enabled := Some False, cfg_amplitude := Some (Fin 0)\<rparr>"
  let ?t = "set_amplitude (Fin 0) (set_enabled False single_array)"
  have h1: "cfg_numElements ?cfg \<noteq> Some PInf"
    by (simp add: single_config_def empty_config_def)
  have h2: "reachable ?t"
    by (intro r_amplitude r_enabled reachable_single_array)
  have t: "\<not> enabled ?t" "amplitude ?t = Fin 0"
    by (simp_all add: set_amplitude_def set_enabled_def Math_max_def Math_min_def)
  have c: "cfg_amplitude ?cfg = Some (Fin 0)" "\<not> truthy (Fin 0)"
    by simp_all
  show ?thesis
    using constructor_replaces_falsy_fields [OF h1 h2, of 0] h1 h2 t c
    by (elim exE conjE) (intro conjI exI, (assumption | blast)+)
qed


section \<open>A curved array of one element\<close>

text \<open>
  C7: on a reachable array whose geometry selects the curved branch, with one element and
  finite pitch, curvature radius, orientation and position, the divisor \<^verbatim>\<open>n - 1 || 1\<close> is
  1, the element's angle and local coordinates are exactly 0, and
  \<^verbatim>\<open>_calculateElementPositions\<close> returns a single element whose world position is exactly
  the array's position.
\<close>

theorem curved_single_element_at_origin:
  assumes "reachable s"
    and "geometry s \<noteq> ''linear''"
    and "numElements s = Fin 1"
    and "pitch s = Fin p"
    and "curvatureRadius s = Fin R"
    and "orientation s = Fin ori"
    and "position s = \<lparr>pos_x = Fin X, pos_y = Fin Y\<rparr>"
  shows "num_or (numElements s - Fin 1) (Fin 1) = Fin 1 \<and>
         curved_local s (curvatureRadius s)
           ((- ((numElements s - Fin 1) * pitch s / curvatureRadius s)) / Fin 2)
           ((numElements s - Fin 1) * pitch s / curvatureRadius s) 0 = (Fin 0, Fin 0, Fin 0) \<and>
         calculateElementPositions s =
           Inr (s\<lparr>elementPositions :=
                    [\<lparr>elem_x = Fin X, elem_y = Fin Y, localIndex = 0,
                      normalAngle = Some (Fin (ori * pi / 180 + pi / 2))\<rparr>]\<rparr>)"
proof -
  have R: "R \<noteq> 0"
    using assms(1,5) reachable_well_formed [of s] by (auto simp: well_formed_def)
  have lc: "loop_count (numElements s) = Some 1" using assms(3) by simp
  have d: "num_or (numElements s - Fin 1) (Fin 1) = Fin 1"
    using assms(3) by (simp add: minus_jsnum_def num_or_def)
  have l: "curved_local s (curvatureRadius s)
              ((- ((numElements s - Fin 1) * pitch s / curvatureRadius s)) / Fin 2)
              ((numElements s - Fin 1) * pitch s / curvatureRadius s) 0 = (Fin 0, Fin 0, Fin 0)"
    using assms(3-5) R by (simp add: curved_local_def minus_jsnum_def num_or_def Let_def)
  have e: "computed_element s 0 =
             \<lparr>elem_x = Fin X, elem_y = Fin Y, localIndex = 0,
              normalAngle = Some (Fin (ori * pi / 180 + pi / 2))\<rparr>"
    using assms(2,6,7) l
    by (simp add: computed_element_def curved_element_def minus_jsnum_def Let_def)
  show ?thesis
    using d l e by (simp add: calculateElementPositions_fin [OF lc])
qed

theorem curved_single_element_at_origin_witness:
  "reachable (set_geometry ''curved'' single_array) \<and>
   geometry (set_geometry ''curved'' single_array) \<noteq> ''linear'' \<and>
   numElements (set_geometry ''curved'' single_array) = Fin 1 \<and>
   pitch (set_geometry ''curved'' single_array) = Fin 0.005 \<and>
   curvatureRadius (set_geometry ''curved'' single_array) = Fin 0.1 \<and>
   orientation (set_geometry ''curved'' single_array) = Fin 0 \<and>
   position (set_geometry ''curved'' single_array) = \<lparr>pos_x = Fin 0, pos_y = Fin (- 0.1)\<rparr> \<and>
   curved_local (set_geometry ''curved'' single_array) (Fin 0.1) (Fin 0) (Fin 0) 0
     = (Fin 0, Fin 0, Fin 0) \<and>
   calculateElementPositions (set_geometry ''curved'' single_array) =
     Inr ((set_geometry ''curved'' single_array)\<lparr>elementPositions :=
            [\<lparr>elem_x = Fin 0, elem_y = Fin (- 0.1), localIndex = 0,
              normalAngle = Some (Fin (pi / 2))\<rparr>]\<rparr>)"
proof -
  let ?s = "set_geometry ''curved'' single_array"
  have r: "reachable ?s" by (intro r_geometry reachable_single_array)
  have h: "geometry ?s \<noteq> ''linear''" "numElements ?s = Fin 1" "pitch ?s = Fin 0.005"
    "curvatureRadius ?s = Fin 0.1" "orientation ?s = Fin 0"
    "position ?s = \<lparr>pos_x = Fin 0, pos_y = Fin (- 0.1)\<rparr>"
    by (simp_all add: set_geometry_def single_array_def)
  show ?thesis
    using curved_single_element_at_origin [OF r h] r h by (simp add: minus_jsnum_def)
qed

section \<open>Phase delays against the reference formulas\<close>

lemma isFinite_iff: "isFinite v \<longleftrightarrow> (\<exists>a. v = Fin a)"
  by (cases v) auto

lemma isFinite_real_of_num: "isFinite v \<Longrightarrow> v = Fin (real_of_num v)"
  by (cases v) auto

lemma computed_element_finite:
  assumes "finite_config s" "curvatureRadius s \<noteq> Fin 0"
  shows "isFinite (elem_x (computed_element s i)) \<and> isFinite (elem_y (computed_element s i))"
proof -
  from assms obtain n p ori X Y R where v:
    "numElements s = Fin n" "pitch s = Fin p" "orientation s = Fin ori"
    "pos_x (position s) = Fin X" "pos_y (position s) = Fin Y" "curvatureRadius s = Fin R" "R \<noteq> 0"
    by (auto simp: finite_config_def isFinite_iff)
  show ?thesis
    by (simp add: computed_element_def linear_element_def curved_element_def curved_local_def
        v minus_jsnum_def num_or_def Let_def)
qed

lemma computed_phase_spec:
  assumes "finite_config s" "frequency s \<noteq> Fin 0" "speedOfSound s \<noteq> Fin 0"
    and "elem_x e = Fin X" "elem_y e = Fin Y"
  shows "computed_phase s e = Fin (spec_phase s (X, Y))"
proof -
  from assms obtain f c st ori PX PY where v:
    "frequency s = Fin f" "speedOfSound s = Fin c" "steeringAngle s = Fin st"
    "orientation s = Fin ori" "pos_x (position s) = Fin PX" "pos_y (position s) = Fin PY"
    "f \<noteq> 0" "c \<noteq> 0"
    by (auto simp: finite_config_def isFinite_iff)
  have ang: "st * pi / 180 + ori * pi / 180 = (st + ori) * pi / 180"
    by (simp add: algebra_simps)
  show ?thesis
  proof (cases "focalDistance s")
    case (Fin F)
    then show ?thesis
      using assms(4,5) 
      by (simp add: computed_phase_def element_phase_def spec_phase_def v minus_jsnum_def Let_def
          ang spec_near_field_phase_def spec_focal_point_def spec_direction_def
          spec_wave_number_def not_sum_power2_lt_zero)
  next
    case PInf
    then show ?thesis
      using assms(4,5) 
      by (simp add: computed_phase_def element_phase_def spec_phase_def v minus_jsnum_def Let_def
          ang spec_far_field_phase_def spec_direction_def spec_wave_number_def)
  next
    case NInf
    then show ?thesis
      using assms(4,5) 
      by (simp add: computed_phase_def element_phase_def spec_phase_def v minus_jsnum_def Let_def
          ang spec_far_field_phase_def spec_direction_def spec_wave_number_def)
  next
    case NaN
    then show ?thesis
      using assms(4,5) 
      by (simp add: computed_phase_def element_phase_def spec_phase_def v minus_jsnum_def Let_def
          ang spec_far_field_phase_def spec_direction_def spec_wave_number_def)
  qed
qed


lemma reachable_ensureCalculated:
  assumes "reachable s"
  shows "\<exists>c. loop_count (numElements s) = Some c \<and> ensureCalculated s = Inr (refreshed s c)"
proof -
  have cv: "cache_valid s" using assms reachable_well_formed by (simp add: well_formed_def)
  obtain c where c: "loop_count (numElements s) = Some c"
    using assms reachable_loop_count by blast
  with cv show ?thesis using ensureCalculated_fin by blast
qed

text \<open>
  C3: on every reachable array with a finite configuration, the element positions and
  phases that a query finds after \<^verbatim>\<open>_ensureCalculated\<close> are finite numbers, the wavelength is
  \<open>speedOfSound / frequency\<close>, and the phase of each element is the reference formula of
  the mode: the near-field formula when the focal distance is a finite \<open>F\<close>, the far-field
  formula when it is not finite.
\<close>

theorem phase_delays_match_reference:
  assumes "reachable s" and "finite_config s"
    and "speedOfSound s = Fin c" and "frequency s = Fin f"
    and "steeringAngle s = Fin st" and "orientation s = Fin ori"
    and "position s = \<lparr>pos_x = Fin PX, pos_y = Fin PY\<rparr>"
  shows "\<exists>s'. ensureCalculated s = Inr s' \<and>
           wavelength s' = Fin (c / f) \<and>
           length (elementPhases s') = length (elementPositions s') \<and>
           (\<forall>i < length (elementPositions s'). \<exists>X Y.
              elem_x (elementPositions s' ! i) = Fin X \<and>
              elem_y (elementPositions s' ! i) = Fin Y \<and>
              (\<forall>F. focalDistance s = Fin F \<longrightarrow>
                 elementPhases s' ! i =
                   Fin (spec_near_field_phase (spec_wave_number c f) F
                          (spec_focal_point (PX, PY) F (spec_direction st ori)) (X, Y))) \<and>
              (\<not> isFinite (focalDistance s) \<longrightarrow>
                 elementPhases s' ! i =
                   Fin (spec_far_field_phase (spec_wave_number c f) (spec_direction st ori)
                          (X - PX, Y - PY))))"
proof -
  have wf: "well_formed s" using assms(1) by (rule reachable_well_formed)
  then have nz: "frequency s \<noteq> Fin 0" "speedOfSound s \<noteq> Fin 0" "curvatureRadius s \<noteq> Fin 0"
    by (simp_all add: well_formed_def)
  obtain n where n: "loop_count (numElements s) = Some n"
    "ensureCalculated s = Inr (refreshed s n)"
    using reachable_ensureCalculated [OF assms(1)] by blast
  have f0: "f \<noteq> 0" using nz(1) assms(4) by auto
  have w: "wavelength (refreshed s n) = Fin (c / f)"
    using assms(3,4) f0 by simp
  have el: "\<forall>i < length (elementPositions (refreshed s n)). \<exists>X Y.
              elem_x (elementPositions (refreshed s n) ! i) = Fin X \<and>
              elem_y (elementPositions (refreshed s n) ! i) = Fin Y \<and>
              (\<forall>F. focalDistance s = Fin F \<longrightarrow>
                 elementPhases (refreshed s n) ! i =
                   Fin (spec_near_field_phase (spec_wave_number c f) F
                          (spec_focal_point (PX, PY) F (spec_direction st ori)) (X, Y))) \<and>
              (\<not> isFinite (focalDistance s) \<longrightarrow>
                 elementPhases (refreshed s n) ! i =
                   Fin (spec_far_field_phase (spec_wave_number c f) (spec_direction st ori)
                          (X - PX, Y - PY)))"
  proof (intro allI impI)
    fix i assume "i < length (elementPositions (refreshed s n))"
    then have i: "i < n" by simp
    let ?e = "computed_element s i"
    obtain X Y where XY: "elem_x ?e = Fin X" "elem_y ?e = Fin Y"
      using computed_element_finite [OF assms(2) nz(3), of i] by (auto simp: isFinite_iff)
    have ph: "computed_phase s ?e = Fin (spec_phase s (X, Y))"
      using assms(2) nz(1,2) XY by (rule computed_phase_spec)
    have near: "\<forall>F. focalDistance s = Fin F \<longrightarrow>
        spec_phase s (X, Y) = spec_near_field_phase (spec_wave_number c f) F
                          (spec_focal_point (PX, PY) F (spec_direction st ori)) (X, Y)"
      using assms(3-7) by (simp add: spec_phase_def)
    have far: "\<not> isFinite (focalDistance s) \<longrightarrow>
        spec_phase s (X, Y) = spec_far_field_phase (spec_wave_number c f) (spec_direction st ori)
                          (X - PX, Y - PY)"
      using assms(3-7) by (cases "focalDistance s") (simp_all add: spec_phase_def)
    show "\<exists>X Y.
              elem_x (elementPositions (refreshed s n) ! i) = Fin X \<and>
              elem_y (elementPositions (refreshed s n) ! i) = Fin Y \<and>
              (\<forall>F. focalDistance s = Fin F \<longrightarrow>
                 elementPhases (refreshed s n) ! i =
                   Fin (spec_near_field_phase (spec_wave_number c f) F
                          (spec_focal_point (PX, PY) F (spec_direction st ori)) (X, Y))) \<and>
              (\<not> isFinite (focalDistance s) \<longrightarrow>
                 elementPhases (refreshed s n) ! i =
                   Fin (spec_far_field_phase (spec_wave_number c f) (spec_direction st ori)
                          (X - PX, Y - PY)))"
      using i XY ph near far by (intro exI [of _ X] exI [of _ Y]) simp
  qed
  show ?thesis
    using n(2) w el by (intro exI [of _ "refreshed s n"]) simp
qed


lemma focused_pair_fields:
  "numElements focused_pair = Fin 2" "pitch focused_pair = Fin 0.005"
  "frequency focused_pair = Fin 40000" "steeringAngle focused_pair = Fin 30"
  "position focused_pair = \<lparr>pos_x = Fin 0, pos_y = Fin (- 0.1)\<rparr>"
  "geometry focused_pair = ''linear''" "curvatureRadius focused_pair = Fin 0.1"
  "orientation focused_pair = Fin 0" "focalDistance focused_pair = Fin 0.2"
  "amplitude focused_pair = Fin 1" "enabled focused_pair" "speedOfSound focused_pair = Fin 343"
  "dirty focused_pair"
  by (simp_all add: focused_pair_def set_focalDistance_def set_steeringAngle_def
      set_numElements_def single_array_def Math_max_def Math_min_def)

lemma reachable_focused_pair: "reachable focused_pair"
  unfolding focused_pair_def
  by (intro r_focalDistance r_steeringAngle r_numElements reachable_single_array)

lemma finite_config_focused_pair: "finite_config focused_pair"
  by (simp add: finite_config_def focused_pair_fields)

theorem phase_delays_match_reference_witness:
  "reachable focused_pair \<and> finite_config focused_pair \<and>
   speedOfSound focused_pair = Fin 343 \<and> frequency focused_pair = Fin 40000 \<and>
   steeringAngle focused_pair = Fin 30 \<and> orientation focused_pair = Fin 0 \<and>
   position focused_pair = \<lparr>pos_x = Fin 0, pos_y = Fin (- 0.1)\<rparr> \<and>
   focalDistance focused_pair = Fin 0.2 \<and>
   (\<exists>s'. ensureCalculated focused_pair = Inr s' \<and>
      length (elementPositions s') = 2 \<and>
      length (elementPhases s') = 2 \<and>
      (\<forall>i < 2. \<exists>X Y.
         elem_x (elementPositions s' ! i) = Fin X \<and>
         elem_y (elementPositions s' ! i) = Fin Y \<and>
         elementPhases s' ! i =
           Fin (spec_near_field_phase (spec_wave_number 343 40000) 0.2
                  (spec_focal_point (0, - 0.1) 0.2 (spec_direction 30 0)) (X, Y))))"
proof -
  let ?k = "spec_wave_number 343 40000"
  let ?dir = "spec_direction 30 0"
  obtain s' where s': "ensureCalculated focused_pair = Inr s'"
      "length (elementPhases s') = length (elementPositions s')"
    and el: "\<forall>i < length (elementPositions s'). \<exists>X Y.
              elem_x (elementPositions s' ! i) = Fin X \<and>
              elem_y (elementPositions s' ! i) = Fin Y \<and>
              (\<forall>F. focalDistance focused_pair = Fin F \<longrightarrow>
                 elementPhases s' ! i =
                   Fin (spec_near_field_phase ?k F (spec_focal_point (0, - 0.1) F ?dir) (X, Y))) \<and>
              (\<not> isFinite (focalDistance focused_pair) \<longrightarrow>
                 elementPhases s' ! i = Fin (spec_far_field_phase ?k ?dir (X - 0, Y - (- 0.1))))"
    using phase_delays_match_reference [OF reachable_focused_pair finite_config_focused_pair
        focused_pair_fields(12) focused_pair_fields(3) focused_pair_fields(4)
        focused_pair_fields(8) focused_pair_fields(5)]
    by blast
  have len: "length (elementPositions s') = 2"
    using s'(1) by (auto simp: ensureCalculated_def focused_pair_fields recalculate_fin)
  have "\<forall>i < 2. \<exists>X Y.
         elem_x (elementPositions s' ! i) = Fin X \<and>
         elem_y (elementPositions s' ! i) = Fin Y \<and>
         elementPhases s' ! i =
           Fin (spec_near_field_phase ?k 0.2 (spec_focal_point (0, - 0.1) 0.2 ?dir) (X, Y))"
  proof (intro allI impI)
    fix i :: nat assume "i < 2"
    with len have "i < length (elementPositions s')" by simp
    with el obtain X Y where
      "elem_x (elementPositions s' ! i) = Fin X" "elem_y (elementPositions s' ! i) = Fin Y"
      "\<forall>F. focalDistance focused_pair = Fin F \<longrightarrow>
                 elementPhases s' ! i =
                   Fin (spec_near_field_phase ?k F (spec_focal_point (0, - 0.1) F ?dir) (X, Y))"
      by blast
    then show "\<exists>X Y.
         elem_x (elementPositions s' ! i) = Fin X \<and>
         elem_y (elementPositions s' ! i) = Fin Y \<and>
         elementPhases s' ! i =
           Fin (spec_near_field_phase ?k 0.2 (spec_focal_point (0, - 0.1) 0.2 ?dir) (X, Y))"
      using focused_pair_fields(9) by blast
  qed
  with s' len reachable_focused_pair finite_config_focused_pair focused_pair_fields
  show ?thesis by auto
qed

section \<open>The field at a point\<close>











lemma mul_d_NaN [simp]: "mul_d a NaN = NaN"
  by (cases a) (simp_all add: mul_d_def)

lemma add_d_NaN [simp]: "add_d a NaN = NaN"
  by (cases a) (simp_all add: add_d_def)


























section \<open>The beam pattern at the steering angle\<close>

lemma foldl_Fin_pair_sum:
  assumes "\<And>a b i. i < n \<Longrightarrow> step (Fin a, Fin b) (i, E i) = (Fin (a + g i), Fin (b + h i))"
  shows "foldl step (Fin a0, Fin b0) (map (\<lambda>i. (i, E i)) [0..<n])
           = (Fin (a0 + sum_list (map g [0..<n])), Fin (b0 + sum_list (map h [0..<n])))"
  using assms
proof (induction n)
  case 0
  then show ?case by simp
next
  case (Suc n)
  then have "foldl step (Fin a0, Fin b0) (map (\<lambda>i. (i, E i)) [0..<n])
           = (Fin (a0 + sum_list (map g [0..<n])), Fin (b0 + sum_list (map h [0..<n])))"
    by simp
  then show ?case using Suc.prems [of n] by (simp add: add.assoc)
qed

lemma beam_step_fin:
  assumes "amplitude s' = Fin a" "nth_js (elementPhases s') i = Some (Fin p)"
    "elem_x e = Fin X" "elem_y e = Fin Y"
  shows "beam_step s' (Fin k) (Fin phi) (Fin r, Fin m) (i, e) =
           (Fin (r + a * cos (k * (X * sin phi + Y * cos phi) + p)),
            Fin (m + a * sin (k * (X * sin phi + Y * cos phi) + p)))"
  using assms by (simp add: beam_step_def Let_def)

lemma sum_list_const: "sum_list (map (\<lambda>i. (c::real)) [0..<n]) = real n * c"
  by (induction n) (simp_all add: algebra_simps)

lemma steered_total_phase:
  "k * (X * sin phi + Y * cos phi) + spec_far_field_phase k (sin phi, cos phi) (X - PX, Y - PY)
     = k * (PX * sin phi + PY * cos phi)"
  by (simp add: spec_far_field_phase_def algebra_simps)

lemma peak_value:
  fixes a :: real
  assumes "a \<noteq> 0" "n \<noteq> 0"
  shows "(n * (a * cos C) * (n * (a * cos C)) + n * (a * sin C) * (n * (a * sin C))) / (n * n * a * a) = 1"
proof -
  have sc: "(sin C)\<^sup>2 + (cos C)\<^sup>2 = 1" by simp
  have "n * (a * cos C) * (n * (a * cos C)) + n * (a * sin C) * (n * (a * sin C))
          = n * n * a * a"
    using sc by algebra
  then show ?thesis using assms by simp
qed

lemma Fin_intensity:
  "D \<noteq> 0 \<Longrightarrow> (Fin X * Fin X + Fin Y * Fin Y) / Fin D = Fin ((X * X + Y * Y) / D)"
  by simp

text \<open>
  In the exact arithmetic of the model, the pattern of an array with an amplitude other
  than 0 has its peak at the steering angle: on every reachable array with a finite
  configuration, orientation 0, infinite focal distance and \<open>n \<ge> 1\<close> elements,
  \<^verbatim>\<open>calculateBeamPattern\<close> at the steering angle returns 1.
\<close>

lemma beam_pattern_peak_at_steering_angle:
  assumes "reachable s" and "finite_config s"
    and "orientation s = Fin 0" and "focalDistance s = PInf"
    and "numElements s = Fin (real n)" and "1 \<le> n"
    and "amplitude s = Fin a" and "a \<noteq> 0"
  shows "\<exists>s'. calculateBeamPattern s (steeringAngle s) = Inr (Fin 1, s')"
proof -
  have wf: "well_formed s" using assms(1) by (rule reachable_well_formed)
  then have nz: "frequency s \<noteq> Fin 0" "speedOfSound s \<noteq> Fin 0" "curvatureRadius s \<noteq> Fin 0"
    and cv: "cache_valid s"
    by (simp_all add: well_formed_def)
  from assms(2) nz obtain f c st PX PY where v:
    "frequency s = Fin f" "speedOfSound s = Fin c" "steeringAngle s = Fin st"
    "pos_x (position s) = Fin PX" "pos_y (position s) = Fin PY" "f \<noteq> 0" "c \<noteq> 0"
    by (auto simp: finite_config_def isFinite_iff)
  have lc: "loop_count (numElements s) = Some n" using assms(5) by simp
  let ?s' = "refreshed s n"
  let ?E = "computed_element s"
  let ?k = "2 * pi / (c / f)"
  let ?phi = "st * pi / 180"
  let ?C = "?k * (PX * sin ?phi + PY * cos ?phi)"
  have step: "\<And>r m i. i < n \<Longrightarrow>
      beam_step ?s' (Fin ?k) (Fin ?phi) (Fin r, Fin m) (i, ?E i)
        = (Fin (r + a * cos ?C), Fin (m + a * sin ?C))"
  proof -
    fix r m i assume i: "i < n"
    obtain X Y where XY: "elem_x (?E i) = Fin X" "elem_y (?E i) = Fin Y"
      using computed_element_finite [OF assms(2) nz(3), of i] by (auto simp: isFinite_iff)
    have "computed_phase s (?E i) = Fin (spec_phase s (X, Y))"
      using assms(2) nz(1,2) XY by (rule computed_phase_spec)
    also have "spec_phase s (X, Y)
                 = spec_far_field_phase ?k (sin ?phi, cos ?phi) (X - PX, Y - PY)"
      using assms(3,4) v
      by (simp add: spec_phase_def spec_wave_number_def spec_direction_def)
    finally have p: "nth_js (elementPhases ?s') i
        = Some (Fin (spec_far_field_phase ?k (sin ?phi, cos ?phi) (X - PX, Y - PY)))"
      using i by (simp add: nth_js_map_upt)
    have a: "amplitude ?s' = Fin a" using assms(7) by simp
    show "beam_step ?s' (Fin ?k) (Fin ?phi) (Fin r, Fin m) (i, ?E i)
        = (Fin (r + a * cos ?C), Fin (m + a * sin ?C))"
      unfolding beam_step_fin [OF a p XY] steered_total_phase ..
  qed
  have fold: "foldl (beam_step ?s' (Fin ?k) (Fin ?phi)) (Fin 0, Fin 0) (map (\<lambda>i. (i, ?E i)) [0..<n])
      = (Fin (0 + sum_list (map (\<lambda>i. a * cos ?C) [0..<n])),
         Fin (0 + sum_list (map (\<lambda>i. a * sin ?C) [0..<n])))"
    using step by (rule foldl_Fin_pair_sum)
  have n0: "real n \<noteq> 0" using assms(6) by simp
  have fold': "foldl (beam_step ?s' (Fin ?k) (Fin ?phi)) (Fin 0, Fin 0)
                 (map (\<lambda>i. (i, ?E i)) [0..<n])
      = (Fin (real n * (a * cos ?C)), Fin (real n * (a * sin ?C)))"
    using fold by (simp add: sum_list_const)
  have k: "Fin 2 * Fin pi / (speedOfSound s / frequency s) = Fin ?k"
    using v by simp
  have ang: "steeringAngle s * Fin pi / Fin 180 = Fin ?phi"
    using v by simp
  have mi: "numElements s * numElements s * amplitude s * amplitude s
              = Fin (real n * real n * a * a)"
    using assms(5,7) by simp
  have d: "real n * real n * a * a \<noteq> 0" using n0 assms(8) by simp
  have "calculateBeamPattern s (steeringAngle s) = Inr (Fin 1, ?s')"
    unfolding calculateBeamPattern_fin [OF cv lc] k ang fold' mi prod.case
      Fin_intensity [OF d] peak_value [OF assms(8) n0] ..
  then show ?thesis by blast
qed


lemma steered_eleven_fields:
  "numElements steered_eleven = Fin (real 11)" "pitch steered_eleven = Fin (0.5 * (343 / 40000))"
  "frequency steered_eleven = Fin 40000" "steeringAngle steered_eleven = Fin 30"
  "position steered_eleven = \<lparr>pos_x = Fin 0, pos_y = Fin (- 0.1)\<rparr>"
  "geometry steered_eleven = ''linear''" "curvatureRadius steered_eleven = Fin 0.1"
  "orientation steered_eleven = Fin 0" "focalDistance steered_eleven = PInf"
  "amplitude steered_eleven = Fin 1" "enabled steered_eleven"
  "speedOfSound steered_eleven = Fin 343"
  by (simp_all add: steered_eleven_def set_steeringAngle_def set_pitch_def
      set_numElements_def single_array_def Math_max_def Math_min_def)

lemma reachable_steered_eleven: "reachable steered_eleven"
  unfolding steered_eleven_def
  by (intro r_steeringAngle r_pitch r_numElements reachable_single_array)

lemma finite_config_steered_eleven: "finite_config steered_eleven"
  by (simp add: finite_config_def steered_eleven_fields del: of_nat_numeral)

lemma beam_pattern_peak_steered_eleven:
  "reachable steered_eleven \<and> finite_config steered_eleven \<and> enabled steered_eleven \<and>
   orientation steered_eleven = Fin 0 \<and> focalDistance steered_eleven = PInf \<and>
   numElements steered_eleven = Fin (real 11) \<and> (1::nat) \<le> 11 \<and>
   amplitude steered_eleven = Fin 1 \<and> (1::real) \<noteq> 0 \<and>
   wavelength steered_eleven = Fin (343 / 40000) \<and>
   pitch steered_eleven = Fin (0.5 * (343 / 40000)) \<and>
   (\<exists>s'. calculateBeamPattern steered_eleven (Fin 30) = Inr (Fin 1, s'))"
proof -
  have le: "(1::nat) \<le> 11" and ne: "(1::real) \<noteq> 0" by simp_all
  have th: "\<exists>s'. calculateBeamPattern steered_eleven (Fin 30) = Inr (Fin 1, s')"
    using beam_pattern_peak_at_steering_angle [OF reachable_steered_eleven
        finite_config_steered_eleven steered_eleven_fields(8) steered_eleven_fields(9)
        steered_eleven_fields(1) le steered_eleven_fields(10) ne]
    by (simp only: steered_eleven_fields(4))
  have w: "wavelength steered_eleven = Fin (343 / 40000)"
    by (simp add: steered_eleven_def set_steeringAngle_def set_pitch_def
      set_numElements_def single_array_def)
  show ?thesis
    by (intro conjI reachable_steered_eleven finite_config_steered_eleven
        steered_eleven_fields(11) steered_eleven_fields(8) steered_eleven_fields(9)
        steered_eleven_fields(1) le steered_eleven_fields(10) ne w steered_eleven_fields(2) th)
qed

lemma muted_single_fields:
  "numElements muted_single = Fin 1" "steeringAngle muted_single = Fin 0"
  "orientation muted_single = Fin 0" "focalDistance muted_single = PInf"
  "amplitude muted_single = Fin 0" "enabled muted_single" "\<not> dirty muted_single"
  by (simp_all add: muted_single_def set_amplitude_def single_array_def Math_max_def Math_min_def)

lemma reachable_muted_single: "reachable muted_single"
  unfolding muted_single_def by (intro r_amplitude reachable_single_array)

text \<open>
  C2 fails on the code when the amplitude is 0, a value the amplitude setter admits.  The
  sample array with amplitude 0 is enabled, has orientation 0, infinite focal distance and
  one element; the two sums are 0, the normalizing maximum \<open>n * n * a * a\<close> is 0, and
  \<^verbatim>\<open>calculateBeamPattern\<close> at the steering angle returns the quotient \<open>0 / 0\<close>, which is
  \<open>NaN\<close>: neither the intensity 1 nor a normalized intensity at all.
\<close>

theorem beam_pattern_zero_amplitude:
  "reachable muted_single \<and> enabled muted_single \<and> orientation muted_single = Fin 0 \<and>
   focalDistance muted_single = PInf \<and> numElements muted_single = Fin 1 \<and>
   amplitude muted_single = Fin 0 \<and>
   calculateBeamPattern muted_single (steeringAngle muted_single) = Inr (NaN, muted_single)"
proof -
  have "calculateBeamPattern muted_single (steeringAngle muted_single) = Inr (NaN, muted_single)"
    by (simp add: calculateBeamPattern_def ensureCalculated_def muted_single_fields Let_def)
       (simp add: muted_single_def set_amplitude_def single_array_def Math_max_def Math_min_def
          beam_step_def nth_js_def signed_inf_def Let_def)
  then show ?thesis
    by (intro conjI reachable_muted_single muted_single_fields)
qed

section \<open>The serialization round trip\<close>

lemma disabled_single_fields:
  "numElements disabled_single = Fin 1" "amplitude disabled_single = Fin 1"
  "\<not> enabled disabled_single" "\<not> dirty disabled_single"
  by (simp_all add: disabled_single_def set_enabled_def single_array_def)

lemma reachable_disabled_single: "reachable disabled_single"
  unfolding disabled_single_def by (intro r_enabled reachable_single_array)

lemma fromJSON_disabled_single:
  "fromJSON 1 (toJSON disabled_single) = Inr (single_array\<lparr>array_id := 2\<rparr>, 2)"
  by (simp add: fromJSON_def new_PhasedArray_def generateId_def constructor_fields_def toJSON_def
      disabled_single_def set_enabled_def
      recalculate_fin refreshed_def single_array_def num_or_def
      computed_element_def computed_phase_def linear_element_def element_phase_def
      minus_jsnum_def Let_def)

lemma fromJSON_muted_single:
  "fromJSON 1 (toJSON muted_single) = Inr (single_array\<lparr>array_id := 2\<rparr>, 2)"
  by (simp add: fromJSON_def new_PhasedArray_def generateId_def constructor_fields_def toJSON_def
      muted_single_def set_amplitude_def Math_max_def Math_min_def
      recalculate_fin refreshed_def single_array_def num_or_def
      computed_element_def computed_phase_def linear_element_def element_phase_def
      minus_jsnum_def Let_def)

text \<open>
  C1 fails on the code.  The sample array, disabled, returns no element data; the array
  deserialized from its serialization is enabled and returns one entry.  The sample
  array with amplitude 0 returns an entry of amplitude 0; the array deserialized from its
  serialization returns an entry of amplitude 1.
\<close>

theorem roundtrip_loses_enabled_and_zero_amplitude:
  "reachable disabled_single \<and>
   getElementData disabled_single = Inr ([], disabled_single) \<and>
   fromJSON 1 (toJSON disabled_single) = Inr (single_array\<lparr>array_id := 2\<rparr>, 2) \<and>
   reachable muted_single \<and>
   getElementData muted_single =
     Inr ([\<lparr>data_x = Fin 0, data_y = Fin (- 0.1), data_phase = Some (Fin 0),
            data_amplitude = Fin 0\<rparr>], muted_single) \<and>
   fromJSON 1 (toJSON muted_single) = Inr (single_array\<lparr>array_id := 2\<rparr>, 2) \<and>
   enabled (single_array\<lparr>array_id := 2\<rparr>) \<and>
   getElementData (single_array\<lparr>array_id := 2\<rparr>) =
     Inr ([\<lparr>data_x = Fin 0, data_y = Fin (- 0.1), data_phase = Some (Fin 0),
            data_amplitude = Fin 1\<rparr>], single_array\<lparr>array_id := 2\<rparr>)"
proof -
  have 1: "getElementData disabled_single = Inr ([], disabled_single)"
    by (simp add: getElementData_def ensureCalculated_def disabled_single_fields)
  have 2: "getElementData muted_single =
     Inr ([\<lparr>data_x = Fin 0, data_y = Fin (- 0.1), data_phase = Some (Fin 0),
            data_amplitude = Fin 0\<rparr>], muted_single)"
    by (simp add: getElementData_def ensureCalculated_def muted_single_fields)
       (simp add: muted_single_def set_amplitude_def single_array_def nth_js_def
          Math_max_def Math_min_def)
  have 3: "getElementData (single_array\<lparr>array_id := 2\<rparr>) =
     Inr ([\<lparr>data_x = Fin 0, data_y = Fin (- 0.1), data_phase = Some (Fin 0),
            data_amplitude = Fin 1\<rparr>], single_array\<lparr>array_id := 2\<rparr>)"
    by (simp add: getElementData_def ensureCalculated_def single_array_def nth_js_def)
  have 4: "enabled (single_array\<lparr>array_id := 2\<rparr>)"
    by (simp add: single_array_def)
  show ?thesis
    by (intro conjI reachable_disabled_single 1 fromJSON_disabled_single reachable_muted_single
        2 fromJSON_muted_single 3 4)
qed


lemma computed_element_cong:
  assumes "numElements s = numElements t" "pitch s = pitch t" "orientation s = orientation t"
    "geometry s = geometry t" "curvatureRadius s = curvatureRadius t" "position s = position t"
  shows "computed_element s = computed_element t"
  using assms
  by (simp add: computed_element_def linear_element_def curved_element_def curved_local_def
      fun_eq_iff Let_def)

lemma computed_phase_cong:
  assumes "steeringAngle s = steeringAngle t" "orientation s = orientation t"
    "speedOfSound s = speedOfSound t" "frequency s = frequency t" "position s = position t"
    "focalDistance s = focalDistance t \<or>
       (\<not> isFinite (focalDistance s) \<and> \<not> isFinite (focalDistance t))"
  shows "computed_phase s = computed_phase t"
  using assms
  by (auto simp: computed_phase_def element_phase_def fun_eq_iff Let_def)

lemma computed_refreshed [simp]:
  "computed_element (refreshed s c) = computed_element s"
  "computed_phase (refreshed s c) = computed_phase s"
  by (simp_all add: refreshed_def)

text \<open>
  What the round trip does keep: for a reachable, enabled array with a finite
  configuration and an amplitude other than 0, the deserialized serialization returns the
  same element data as the array itself.
\<close>

lemma roundtrip_keeps_element_data:
  assumes "reachable s" and "finite_config s" and "enabled s" and "amplitude s \<noteq> Fin 0"
  shows "\<exists>u dat s'. fromJSON idCounter (toJSON s) = Inr (u, Suc idCounter) \<and>
           getElementData s = Inr (dat, s') \<and> getElementData u = Inr (dat, u)"
proof -
  let ?u0 = "constructor_fields (Suc idCounter) (toJSON s)"
  have wf: "well_formed s" using assms(1) by (rule reachable_well_formed)
  then have cv: "cache_valid s" by (simp add: well_formed_def)
  from assms(2) obtain n p f st r ori a c X Y where v:
    "numElements s = Fin n" "pitch s = Fin p" "frequency s = Fin f" "steeringAngle s = Fin st"
    "curvatureRadius s = Fin r" "orientation s = Fin ori" "amplitude s = Fin a"
    "speedOfSound s = Fin c" "pos_x (position s) = Fin X" "pos_y (position s) = Fin Y"
    by (auto simp: finite_config_def isFinite_iff)
  have nz: "n \<noteq> 0" "p \<noteq> 0" "f \<noteq> 0" "r \<noteq> 0" "c \<noteq> 0" "a \<noteq> 0" "geometry s \<noteq> []"
    using wf v assms(4) by (auto simp: well_formed_def)
  have same: "numElements ?u0 = numElements s" "pitch ?u0 = pitch s"
    "frequency ?u0 = frequency s" "steeringAngle ?u0 = steeringAngle s"
    "curvatureRadius ?u0 = curvatureRadius s" "orientation ?u0 = orientation s"
    "amplitude ?u0 = amplitude s" "speedOfSound ?u0 = speedOfSound s"
    "position ?u0 = position s" "geometry ?u0 = geometry s" "enabled ?u0"
    using v nz by (simp_all add: constructor_fields_def toJSON_def num_or_def)
  have fd: "focalDistance ?u0 = focalDistance s \<or>
       (\<not> isFinite (focalDistance ?u0) \<and> \<not> isFinite (focalDistance s))"
    using wf
    by (cases "focalDistance s")
       (auto simp: constructor_fields_def toJSON_def num_or_def well_formed_def)
  have ce: "computed_element ?u0 = computed_element s"
    using same by (intro computed_element_cong) simp_all
  have cp: "computed_phase ?u0 = computed_phase s"
    using same fd by (intro computed_phase_cong) simp_all
  obtain m where m: "loop_count (numElements s) = Some m" using v by simp
  then have m0: "loop_count (numElements ?u0) = Some m" using same by simp
  let ?u = "refreshed ?u0 m"
  have u: "fromJSON idCounter (toJSON s) = Inr (?u, Suc idCounter)"
    using m0 by (simp add: fromJSON_def new_PhasedArray_fin)
  have cu: "cache_valid ?u" using m0 by (auto simp: cache_valid_def)
  have mu: "loop_count (numElements ?u) = Some m" using m0 by simp
  have gs: "getElementData s =
     Inr (map (\<lambda>i. \<lparr>data_x = elem_x (computed_element s i),
                    data_y = elem_y (computed_element s i),
                    data_phase = Some (computed_phase s (computed_element s i)),
                    data_amplitude = amplitude s\<rparr>) [0..<m], refreshed s m)"
    using assms(3) by (simp add: getElementData_fin [OF cv m])
  have gu: "getElementData ?u =
     Inr (map (\<lambda>i. \<lparr>data_x = elem_x (computed_element s i),
                    data_y = elem_y (computed_element s i),
                    data_phase = Some (computed_phase s (computed_element s i)),
                    data_amplitude = amplitude s\<rparr>) [0..<m], ?u)"
    using same(7,11) by (simp add: getElementData_fin [OF cu mu] ce cp)
  show ?thesis using u gs gu by blast
qed

end
